theory Spec2Isabelle
  imports Main "HOL-Library.Word"
begin

section \<open>JavaScript strings and arrays\<close>

text \<open>
  Strings are \<^typ>\<open>string\<close> (lists of characters); a character stands for a
  UTF-16 code unit below 256.  The helpers below are the
  \<open>String.prototype\<close> and \<open>Array.prototype\<close> methods that \<open>src/utils.ts\<close>
  calls, written for a literal (non-regex) pattern.
\<close>

abbreviation LF :: char where "LF \<equiv> CHR 0x0A"
abbreviation DQUOTE :: char where "DQUOTE \<equiv> CHR 0x22"
abbreviation BACKSLASH :: char where "BACKSLASH \<equiv> CHR 0x5C"

fun startsWith :: "string \<Rightarrow> string \<Rightarrow> bool" where
  "startsWith s [] = True"
| "startsWith [] (p # ps) = False"
| "startsWith (c # cs) (p # ps) = (c = p \<and> startsWith cs ps)"

definition endsWith :: "string \<Rightarrow> string \<Rightarrow> bool" where
  "endsWith s p = startsWith (rev s) (rev p)"

text \<open>\<open>s.includes(p)\<close>, also the test of the CSS attribute selector \<open>[attr*="p"]\<close>.\<close>

fun includes_str :: "string \<Rightarrow> string \<Rightarrow> bool" where
  "includes_str [] p = (p = [])"
| "includes_str (c # cs) p = (startsWith (c # cs) p \<or> includes_str cs p)"

text \<open>\<open>s.replace(p, r)\<close> with a string pattern: only the first occurrence is replaced.\<close>

fun replace :: "string \<Rightarrow> string \<Rightarrow> string \<Rightarrow> string" where
  "replace [] p r = (if p = [] then r else [])"
| "replace (c # cs) p r =
     (if startsWith (c # cs) p then r @ drop (length p) (c # cs)
      else c # replace cs p r)"

text \<open>\<open>s.replace(re, ' ')\<close> where \<open>re\<close> matches every line feed: each becomes a space.\<close>

definition replace_newlines :: "string \<Rightarrow> string" where
  "replace_newlines s = map (\<lambda>c. if c = LF then CHR '' '' else c) s"

text \<open>\<open>s.split(c)\<close> for a one-character separator \<open>c\<close>: never the empty list.\<close>

fun split :: "char \<Rightarrow> string \<Rightarrow> string list" where
  "split sep [] = [[]]"
| "split sep (c # cs) =
     (if c = sep then [] # split sep cs
      else (case split sep cs of
              [] \<Rightarrow> [[c]]
            | w # ws \<Rightarrow> (c # w) # ws))"

text \<open>\<open>xs.join(sep)\<close> on an array of strings.\<close>

fun join :: "string \<Rightarrow> string list \<Rightarrow> string" where
  "join sep [] = []"
| "join sep [x] = x"
| "join sep (x # y # ys) = x @ sep @ join sep (y # ys)"

text \<open>
  \<open>s.trim()\<close>: the white space and line terminators of ECMAScript among the code
  units below 256 (tab, line feed, vertical tab, form feed, carriage return, space,
  no-break space).
\<close>

definition is_space :: "char \<Rightarrow> bool" where
  "is_space c =
     (c \<in> {CHR 0x09, CHR 0x0A, CHR 0x0B, CHR 0x0C, CHR 0x0D, CHR 0x20, CHR 0xA0})"

definition trim :: "string \<Rightarrow> string" where
  "trim s = rev (dropWhile is_space (rev (dropWhile is_space s)))"

text \<open>\<open>xs.find(P)\<close>: the first element that satisfies \<open>P\<close>, or \<open>undefined\<close>.\<close>

fun find_first :: "('a \<Rightarrow> bool) \<Rightarrow> 'a list \<Rightarrow> 'a option" where
  "find_first P [] = None"
| "find_first P (x # xs) = (if P x then Some x else find_first P xs)"

text \<open>Errors thrown by the code or by the JavaScript runtime.\<close>

datatype error = TypeError string | Error string

section \<open>JSON values and \<open>JSON.stringify\<close>\<close>

text \<open>
  Docgen type descriptors reach \<open>stringifyPropType\<close> as untyped data marshalled out of
  the page.  A number is an integer from \<open>-2^53\<close> to \<open>2^53 - 1\<close>, the signed value
  of a word of 54 bits: JavaScript holds each of them exactly and writes it in decimal
  notation.  An object is the list of its own properties in enumeration order, looked up
  with \<^const>\<open>map_of\<close>.
\<close>

datatype json =
    JUndefined
  | JNull
  | JBool bool
  | JNum "54 word"
  | JStr string
  | JArr "json list"
  | JObj "(string \<times> json) list"

text \<open>JavaScript truthiness (\<open>!!v\<close>).\<close>

fun truthy :: "json \<Rightarrow> bool" where
  "truthy JUndefined = False"
| "truthy JNull = False"
| "truthy (JBool b) = b"
| "truthy (JNum n) = (n \<noteq> 0)"
| "truthy (JStr s) = (s \<noteq> [])"
| "truthy (JArr xs) = True"
| "truthy (JObj kvs) = True"

text \<open>Property read \<open>v.k\<close> on a value that is neither \<open>null\<close> nor \<open>undefined\<close>.\<close>

fun get_prop :: "json \<Rightarrow> string \<Rightarrow> json" where
  "get_prop (JObj kvs) k = (case map_of kvs k of None \<Rightarrow> JUndefined | Some v \<Rightarrow> v)"
| "get_prop v k = JUndefined"

text \<open>Decimal notation, computed on integers.\<close>

definition digit_char :: "int \<Rightarrow> char" where
  "digit_char n = char_of (48 + n mod 10)"

function decimal :: "int \<Rightarrow> string" where
  "decimal n = (if n < 10 then [digit_char n] else decimal (n div 10) @ [digit_char n])"
  by pat_completeness auto
termination
  by (relation "measure nat") auto

declare decimal.simps [simp del]

definition int_to_string :: "int \<Rightarrow> string" where
  "int_to_string i = (if i < 0 then CHR ''-'' # decimal (- i) else decimal i)"

definition hex_digit :: "nat \<Rightarrow> char" where
  "hex_digit n = (if n < 10 then char_of (48 + n) else char_of (87 + n))"

text \<open>The escapes of \<open>QuoteJSONString\<close> for one-byte characters.\<close>

definition quote_char :: "char \<Rightarrow> string" where
  "quote_char c =
     (if c = DQUOTE then [BACKSLASH, DQUOTE]
      else if c = BACKSLASH then [BACKSLASH, BACKSLASH]
      else if c = CHR 0x08 then [BACKSLASH, CHR ''b'']
      else if c = CHR 0x0C then [BACKSLASH, CHR ''f'']
      else if c = CHR 0x0A then [BACKSLASH, CHR ''n'']
      else if c = CHR 0x0D then [BACKSLASH, CHR ''r'']
      else if c = CHR 0x09 then [BACKSLASH, CHR ''t'']
      else if of_char c < (32 :: nat)
        then [BACKSLASH, CHR ''u'', CHR ''0'', CHR ''0'',
              hex_digit (of_char c div 16), hex_digit (of_char c mod 16)]
      else [c])"

definition quote :: "string \<Rightarrow> string" where
  "quote s = DQUOTE # concat (map quote_char s) @ [DQUOTE]"

text \<open>
  \<open>JSON.stringify(v)\<close> without replacer or indentation; \<open>None\<close> is the result
  \<open>undefined\<close>.  In an array \<open>undefined\<close> is written \<open>null\<close>; in an object a
  property whose value is \<open>undefined\<close> is left out.
\<close>

fun JSON_stringify :: "json \<Rightarrow> string option"
  and stringify_elements :: "json list \<Rightarrow> string list"
  and stringify_properties :: "(string \<times> json) list \<Rightarrow> string list" where
  "JSON_stringify JUndefined = None"
| "JSON_stringify JNull = Some ''null''"
| "JSON_stringify (JBool b) = Some (if b then ''true'' else ''false'')"
| "JSON_stringify (JNum n) = Some (int_to_string (sint n))"
| "JSON_stringify (JStr s) = Some (quote s)"
| "JSON_stringify (JArr xs) = Some (''['' @ join '','' (stringify_elements xs) @ '']'')"
| "JSON_stringify (JObj kvs) = Some (''{'' @ join '','' (stringify_properties kvs) @ ''}'')"
| "stringify_elements [] = []"
| "stringify_elements (x # xs) =
     (case JSON_stringify x of None \<Rightarrow> ''null'' | Some t \<Rightarrow> t) # stringify_elements xs"
| "stringify_properties [] = []"
| "stringify_properties ((k, v) # kvs) =
     (case JSON_stringify v of
        None \<Rightarrow> stringify_properties kvs
      | Some t \<Rightarrow> (quote k @ '':'' @ t) # stringify_properties kvs)"

section \<open>Prop type stringification\<close>

text \<open>\<open>Array.isArray(v)\<close> and the elements of an array.\<close>

fun isArray :: "json \<Rightarrow> bool" where
  "isArray (JArr xs) = True"
| "isArray v = False"

fun array_elements :: "json \<Rightarrow> json list" where
  "array_elements (JArr xs) = xs"
| "array_elements v = []"

text \<open>Optional chaining \<open>v?.k\<close> and \<open>v?.[0]\<close>.\<close>

definition opt_prop :: "json \<Rightarrow> string \<Rightarrow> json" where
  "opt_prop v k = (if v = JUndefined \<or> v = JNull then JUndefined else get_prop v k)"

fun opt_index0 :: "json \<Rightarrow> json" where
  "opt_index0 (JArr xs) = (case xs of [] \<Rightarrow> JUndefined | x # _ \<Rightarrow> x)"
| "opt_index0 (JStr s) = (case s of [] \<Rightarrow> JUndefined | c # _ \<Rightarrow> JStr [c])"
| "opt_index0 (JObj kvs) = get_prop (JObj kvs) ''0''"
| "opt_index0 v = JUndefined"

text \<open>
  The callback of \<open>type.value.map\<close> in the \<open>enum\<close> and \<open>union\<close> branches:
  \<open>v => (typeof v.value === 'string' ? v.value : JSON.stringify(v.value))\<close>.
  Reading \<open>v.value\<close> throws when \<open>v\<close> is \<open>null\<close> or \<open>undefined\<close>; the result
  \<open>undefined\<close> of \<open>JSON.stringify\<close> is kept as \<open>None\<close>.
\<close>

fun string_or_stringify :: "json \<Rightarrow> string option" where
  "string_or_stringify (JStr s) = Some s"
| "string_or_stringify w = JSON_stringify w"

definition cannot_read :: "string \<Rightarrow> string \<Rightarrow> string" where
  "cannot_read v k =
     ''Cannot read properties of '' @ v @ '' (reading '' @ [CHR 0x27] @ k @ [CHR 0x27] @ '')''"

fun value_of_entry :: "json \<Rightarrow> error + string option" where
  "value_of_entry JUndefined = Inl (TypeError (cannot_read ''undefined'' ''value''))"
| "value_of_entry JNull = Inl (TypeError (cannot_read ''null'' ''value''))"
| "value_of_entry v = Inr (string_or_stringify (get_prop v ''value''))"

text \<open>\<open>xs.map(f)\<close> where \<open>f\<close> may throw: the first exception ends the loop.\<close>

fun map_result :: "('a \<Rightarrow> error + 'b) \<Rightarrow> 'a list \<Rightarrow> error + 'b list" where
  "map_result f [] = Inr []"
| "map_result f (x # xs) =
     (case f x of
        Inl e \<Rightarrow> Inl e
      | Inr y \<Rightarrow> (case map_result f xs of Inl e \<Rightarrow> Inl e | Inr ys \<Rightarrow> Inr (y # ys)))"

text \<open>\<open>join\<close> writes an \<open>undefined\<close> element as the empty string.\<close>

definition join_values :: "json list \<Rightarrow> error + string" where
  "join_values vs =
     (case map_result value_of_entry vs of
        Inl e \<Rightarrow> Inl e
      | Inr ws \<Rightarrow> Inr (join '' '' (map (\<lambda>w. case w of None \<Rightarrow> [] | Some s \<Rightarrow> s) ws)))"

text \<open>
  The test \<open>typeof type === 'object' && type !== null && 'name' in type &&
  typeof type.name === 'string'\<close>, giving the name when it holds.
\<close>

definition descriptor_name :: "json \<Rightarrow> string option" where
  "descriptor_name t =
     (case t of
        JObj kvs \<Rightarrow> (case map_of kvs ''name'' of Some (JStr n) \<Rightarrow> Some n | _ \<Rightarrow> None)
      | _ \<Rightarrow> None)"

lemma size_map_of_less: "map_of kvs k = Some v \<Longrightarrow> size v < size (JObj kvs)"
  by (induction kvs) (auto split: if_splits)

lemma size_get_prop_less:
  "descriptor_name t = Some n \<Longrightarrow> truthy (get_prop t ''value'') \<Longrightarrow> size (get_prop t ''value'') < size t"
  by (cases t) (auto simp: descriptor_name_def dest: size_map_of_less split: option.splits)

function stringifyPropType :: "json \<Rightarrow> error + string" where
  "stringifyPropType t =
     (if \<not> truthy t then Inr []
      else case t of
        JStr s \<Rightarrow> Inr s
      | _ \<Rightarrow>
        (case descriptor_name t of
           Some n \<Rightarrow>
             (if n = ''enum'' \<and> isArray (get_prop t ''value'')
                then join_values (array_elements (get_prop t ''value''))
              else if n = ''union'' \<and> isArray (get_prop t ''value'')
                then join_values (array_elements (get_prop t ''value''))
              else if n = ''array'' \<and> truthy (get_prop t ''value'')
                then (case stringifyPropType (get_prop t ''value'') of
                        Inl e \<Rightarrow> Inl e
                      | Inr s \<Rightarrow> Inr (s @ ''[]''))
              else if n = ''signature''
                      \<and> opt_prop (opt_index0 (get_prop t ''value'')) ''value'' = JStr ''function''
                then Inr ''function''
              else Inr n)
         | None \<Rightarrow> Inr (case JSON_stringify t of None \<Rightarrow> [] | Some s \<Rightarrow> s)))"
  by pat_completeness auto
termination
  by (relation "measure size") (auto dest: size_get_prop_less)

declare stringifyPropType.simps [simp del]

text \<open>
  The text that \<open>join\<close> writes for one entry of an \<open>enum\<close> or \<open>union\<close> value list: its
  \<open>value\<close> field when that is a string, the JSON encoding of the field otherwise, and
  nothing when the field is missing.
\<close>

definition entry_text :: "json \<Rightarrow> string" where
  "entry_text v = (case string_or_stringify (get_prop v ''value'') of None \<Rightarrow> [] | Some s \<Rightarrow> s)"

text \<open>A value none of whose arrays, at any depth, holds \<open>null\<close> or \<open>undefined\<close>.\<close>

fun null_free :: "json \<Rightarrow> bool"
  and null_free_elements :: "json list \<Rightarrow> bool"
  and null_free_properties :: "(string \<times> json) list \<Rightarrow> bool" where
  "null_free (JArr xs) = null_free_elements xs"
| "null_free (JObj kvs) = null_free_properties kvs"
| "null_free v = True"
| "null_free_elements [] = True"
| "null_free_elements (x # xs) =
     (x \<noteq> JNull \<and> x \<noteq> JUndefined \<and> null_free x \<and> null_free_elements xs)"
| "null_free_properties [] = True"
| "null_free_properties ((k, v) # kvs) = (null_free v \<and> null_free_properties kvs)"

section \<open>The item collection\<close>

text \<open>
  The record types follow the uses of \<open>StorybookStoreItem\<close>, \<open>StorybookComponent\<close>
  and \<open>StorybookComponentProp\<close> in \<open>src/utils.ts\<close>.  An optional chain that the code
  only ever reads as a whole is one optional field: \<open>story_description\<close> is
  \<open>parameters?.docs?.description?.story\<close>, \<open>originalSource\<close> is
  \<open>parameters.docs?.source?.originalSource\<close>, \<open>component_description\<close> is
  \<open>meta.parameters?.docs?.description?.component\<close>, and \<open>fileName\<close> is
  \<open>meta.parameters.fileName\<close>.  An object with string keys is the association list of
  its entries in enumeration order.  The name of a story is optional, because the
  stories built from \<open>preview.extract()\<close> take it from fields that may be missing.
\<close>

record story_parameters =
  docsOnly :: "bool option"
  fullSource :: "string option"
  story_description :: "string option"
  originalSource :: "string option"

record story =
  story_id :: string
  story_name :: "string option"
  parameters :: story_parameters

text \<open>A docgen \<open>defaultValue\<close>: absent or \<open>null\<close>, a string, or an object with an optional \<open>value\<close>.\<close>

datatype default_value = NoDefault | DefaultString string | DefaultObject "string option"

record docgen_prop =
  arg_description :: "string option"
  arg_type :: json
  arg_defaultValue :: default_value
  arg_required :: "bool option"

record docgen_info =
  docgen_description :: "string option"
  docgen_props :: "(string \<times> docgen_prop) list option"

record component =
  docgenInfo :: "docgen_info option"

record item_meta =
  meta_id :: string
  meta_title :: string
  fileName :: string
  component_description :: "string option"
  meta_component :: "component option"
  subcomponents :: "(string \<times> component option) list option"

text \<open>\<open>stories\<close> is \<open>None\<close> for a raw registry entry that has no stories collection.\<close>

record item =
  meta :: item_meta
  stories :: "(string \<times> story) list option"

record StorybookComponentProp =
  prop_name :: string
  prop_description :: string
  prop_type :: json
  prop_defaultValue :: string
  prop_required :: bool

section \<open>Per-item plain text\<close>

text \<open>\<open>extractStoryDescription\<close>: \<open>... || undefined\<close> turns the empty string into \<open>undefined\<close>.\<close>

definition extractStoryDescription :: "item \<Rightarrow> string option" where
  "extractStoryDescription it =
     (case component_description (meta it) of
        None \<Rightarrow> None
      | Some d \<Rightarrow> (if d = [] then None else Some d))"

text \<open>One entry of \<open>Object.entries(docgen.props)\<close> in the loop of \<open>extractComponentProps\<close>.\<close>

definition prop_of_entry :: "string \<times> docgen_prop \<Rightarrow> StorybookComponentProp" where
  "prop_of_entry e =
     \<lparr> prop_name = fst e,
       prop_description = (case arg_description (snd e) of None \<Rightarrow> [] | Some d \<Rightarrow> d),
       prop_type = (if arg_type (snd e) = JUndefined \<or> arg_type (snd e) = JNull
                    then JObj [] else arg_type (snd e)),
       prop_defaultValue =
         (case arg_defaultValue (snd e) of
            DefaultString d \<Rightarrow> d
          | DefaultObject (Some v) \<Rightarrow> v
          | _ \<Rightarrow> []),
       prop_required = (case arg_required (snd e) of None \<Rightarrow> False | Some r \<Rightarrow> r) \<rparr>"

definition extractComponentProps :: "component option \<Rightarrow> StorybookComponentProp list" where
  "extractComponentProps c =
     (case c of
        None \<Rightarrow> []
      | Some c0 \<Rightarrow>
          (case docgenInfo c0 of
             None \<Rightarrow> []
           | Some docgen \<Rightarrow>
               (case docgen_props docgen of
                  None \<Rightarrow> []
                | Some entries \<Rightarrow>
                    map prop_of_entry (filter (\<lambda>e. fst e \<noteq> ''children'') entries))))"

text \<open>One row of the table of \<open>generateComponentPropsTable\<close>.\<close>

definition props_table_row :: "StorybookComponentProp \<Rightarrow> error + string" where
  "props_table_row p =
     (case stringifyPropType (prop_type p) of
        Inl e \<Rightarrow> Inl e
      | Inr ty \<Rightarrow>
          Inr (''| '' @ join '' | ''
                 [''`'' @ prop_name p @ ''`'',
                  ''`'' @ ty @ ''`'',
                  (if prop_required p then ''Yes'' else ''No''),
                  prop_defaultValue p,
                  replace_newlines (prop_description p)] @ '' |''))"

definition generateComponentPropsTable :: "StorybookComponentProp list \<Rightarrow> error + string list" where
  "generateComponentPropsTable props =
     (if props = [] then Inr []
      else case map_result props_table_row props of
             Inl e \<Rightarrow> Inl e
           | Inr rows \<Rightarrow>
               Inr ([[],
                     ''| Name | Type | Required | Default | Description |'',
                     ''|------|------|----------|---------|-------------|'']
                    @ rows @ [[]]))"

text \<open>The lines pushed for \<open>props\<close> under the heading \<open>h\<close> when \<open>props.length > 0\<close>.\<close>

definition props_section :: "string \<Rightarrow> StorybookComponentProp list \<Rightarrow> error + string list" where
  "props_section h props =
     (if props = [] then Inr []
      else case generateComponentPropsTable props of
             Inl e \<Rightarrow> Inl e
           | Inr table \<Rightarrow> Inr ([h, []] @ table @ [[]]))"

text \<open>The body of the loop over \<open>Object.entries(item.meta.subcomponents)\<close>.\<close>

definition subcomponent_lines :: "string \<times> component option \<Rightarrow> error + string list" where
  "subcomponent_lines e =
     (case (case snd e of None \<Rightarrow> None | Some c \<Rightarrow> docgenInfo c) of
        None \<Rightarrow> Inr []
      | Some docgen \<Rightarrow>
          (case props_section ''#### Props'' (extractComponentProps (snd e)) of
             Inl err \<Rightarrow> Inl err
           | Inr ps \<Rightarrow>
               Inr ([[], ''### '' @ fst e, [],
                     (case docgen_description docgen of None \<Rightarrow> [] | Some d \<Rightarrow> d), []] @ ps)))"

definition subcomponents_section :: "(string \<times> component option) list option \<Rightarrow> error + string list" where
  "subcomponents_section subs =
     (case subs of
        None \<Rightarrow> Inr []
      | Some entries \<Rightarrow>
          (case map_result subcomponent_lines entries of
             Inl e \<Rightarrow> Inl e
           | Inr ls \<Rightarrow> Inr ([''## Subcomponents'', []] @ concat ls)))"

text \<open>\<open>s.parameters?.fullSource ?? s.parameters.docs?.source?.originalSource\<close>.\<close>

definition example_source :: "story \<Rightarrow> string option" where
  "example_source s =
     (case fullSource (parameters s) of
        Some src \<Rightarrow> Some src
      | None \<Rightarrow> originalSource (parameters s))"

text \<open>An optional string inside a template literal: \<open>undefined\<close> is written out.\<close>

definition template_text :: "string option \<Rightarrow> string" where
  "template_text v = (case v of None \<Rightarrow> ''undefined'' | Some s \<Rightarrow> s)"

text \<open>The body of the loop over \<open>examples\<close>; a string is truthy when it is not empty.\<close>

definition example_lines :: "story \<Rightarrow> string list" where
  "example_lines s =
     [[], ''### '' @ template_text (story_name s), []]
     @ (case story_description (parameters s) of
          None \<Rightarrow> []
        | Some d \<Rightarrow> (if d = [] then [] else [d, []]))
     @ (case example_source s of
          None \<Rightarrow> []
        | Some src \<Rightarrow> (if src = [] then [] else [''```tsx'', trim src, ''```'']))"

definition examples_section :: "story list \<Rightarrow> string list" where
  "examples_section ss =
     (if ss = [] then [] else [''## Examples'', []] @ concat (map example_lines ss))"

text \<open>\<open>stories.every(s => s.parameters?.docsOnly)\<close>.\<close>

definition isMDXPage :: "story list \<Rightarrow> bool" where
  "isMDXPage ss = list_all (\<lambda>s. docsOnly (parameters s) = Some True) ss"

text \<open>\<open>stories.map(s => s.parameters?.fullSource ?? '').filter(Boolean)\<close>.\<close>

definition fullSources :: "story list \<Rightarrow> string list" where
  "fullSources ss =
     filter (\<lambda>src. src \<noteq> [])
       (map (\<lambda>s. case fullSource (parameters s) of None \<Rightarrow> [] | Some src \<Rightarrow> src) ss)"

text \<open>
  \<open>generateFullFileContentFromStory\<close>.  \<open>Object.values(item.stories)\<close> throws a
  \<open>TypeError\<close> when the item has no stories collection.
\<close>

definition generateFullFileContentFromStory :: "item \<Rightarrow> error + string list" where
  "generateFullFileContentFromStory it =
     (case stories it of
        None \<Rightarrow> Inl (TypeError ''Cannot convert undefined or null to object'')
      | Some entries \<Rightarrow>
          (if isMDXPage (map snd entries) then Inr (fullSources (map snd entries))
           else
             (case props_section ''## Props'' (extractComponentProps (meta_component (meta it))) of
                Inl e \<Rightarrow> Inl e
              | Inr ps \<Rightarrow>
                  (case subcomponents_section (subcomponents (meta it)) of
                     Inl e \<Rightarrow> Inl e
                   | Inr subs \<Rightarrow>
                       Inr ([''# '' @ meta_title (meta it), []]
                            @ (case extractStoryDescription it of None \<Rightarrow> [] | Some d \<Rightarrow> [d, []])
                            @ ps @ subs
                            @ examples_section (map snd entries))))))"

text \<open>
  The text written to \<open>llms/<id>.txt\<close> by \<open>writeFullDocsFiles\<close>:
  \<open>txtContent.join('\n')\<close>.
\<close>

definition txt_file_content :: "item \<Rightarrow> error + string" where
  "txt_file_content it =
     (case generateFullFileContentFromStory it of
        Inl e \<Rightarrow> Inl e
      | Inr ls \<Rightarrow> Inr (join [LF] ls))"

section \<open>Static asset resolution\<close>

text \<open>
  The functions \<open>extname\<close>, \<open>join\<close> and \<open>resolve\<close> of Node's \<open>node:path\<close> for POSIX
  paths, after \<open>lib/path.js\<close>.  A path is a string; \<open>normalizeString\<close> works on its
  segments between slashes: empty segments and \<open>.\<close> are dropped, \<open>..\<close> removes the
  segment before it, and where there is none it is kept only if the path may rise above
  its start.
\<close>

abbreviation SLASH :: char where "SLASH \<equiv> CHR ''/''"

fun normalize_segments :: "bool \<Rightarrow> string list \<Rightarrow> string list \<Rightarrow> string list" where
  "normalize_segments allowAboveRoot res [] = res"
| "normalize_segments allowAboveRoot res (seg # segs) =
     (if seg = [] \<or> seg = ''.'' then normalize_segments allowAboveRoot res segs
      else if seg = ''..'' then
        (if res \<noteq> [] \<and> last res \<noteq> ''..''
           then normalize_segments allowAboveRoot (butlast res) segs
         else if allowAboveRoot
           then normalize_segments allowAboveRoot (res @ [''..'']) segs
         else normalize_segments allowAboveRoot res segs)
      else normalize_segments allowAboveRoot (res @ [seg]) segs)"

definition normalizeString :: "string \<Rightarrow> bool \<Rightarrow> string" where
  "normalizeString path allowAboveRoot =
     join ''/'' (normalize_segments allowAboveRoot [] (split SLASH path))"

definition isAbsolute :: "string \<Rightarrow> bool" where
  "isAbsolute path = (case path of [] \<Rightarrow> False | c # _ \<Rightarrow> c = SLASH)"

definition normalize :: "string \<Rightarrow> string" where
  "normalize path =
     (if path = [] then ''.''
      else
        (let trailingSeparator = (last path = SLASH);
             p = normalizeString path (\<not> isAbsolute path)
         in if p = [] then
              (if isAbsolute path then ''/'' else if trailingSeparator then ''./'' else ''.'')
            else
              (let q = (if trailingSeparator then p @ ''/'' else p)
               in if isAbsolute path then SLASH # q else q)))"

text \<open>\<open>path.join(...args)\<close>.\<close>

definition join_paths :: "string list \<Rightarrow> string" where
  "join_paths args =
     (if filter (\<lambda>a. a \<noteq> []) args = [] then ''.''
      else normalize (join ''/'' (filter (\<lambda>a. a \<noteq> []) args)))"

text \<open>
  The loop of \<open>path.resolve\<close>, from the last argument to the first and then the
  working directory, until an absolute path is reached; the arguments are given in the
  order the loop visits them.
\<close>

fun resolve_prepend :: "string list \<Rightarrow> string \<Rightarrow> string \<times> bool" where
  "resolve_prepend [] resolvedPath = (resolvedPath, False)"
| "resolve_prepend (path # paths) resolvedPath =
     (if path = [] then resolve_prepend paths resolvedPath
      else if isAbsolute path then (path @ ''/'' @ resolvedPath, True)
      else resolve_prepend paths (path @ ''/'' @ resolvedPath))"

text \<open>\<open>path.resolve(...args)\<close> in a process whose working directory is \<open>cwd\<close>.\<close>

definition resolve :: "string \<Rightarrow> string list \<Rightarrow> string" where
  "resolve cwd args =
     (case resolve_prepend (rev args @ [cwd]) [] of
        (resolvedPath, resolvedAbsolute) \<Rightarrow>
          (let p = normalizeString resolvedPath (\<not> resolvedAbsolute)
           in if resolvedAbsolute then SLASH # p
              else if p \<noteq> [] then p else ''.''))"

text \<open>
  \<open>path.extname(path)\<close>: from the last dot of the last path segment (trailing slashes
  aside) to its end; empty when that segment has no dot, starts with its only dot, or
  is \<open>..\<close>.
\<close>

definition last_segment :: "string \<Rightarrow> string" where
  "last_segment path =
     rev (takeWhile (\<lambda>c. c \<noteq> SLASH) (dropWhile (\<lambda>c. c = SLASH) (rev path)))"

definition extname :: "string \<Rightarrow> string" where
  "extname path =
     (let b = last_segment path;
          ext = rev (takeWhile (\<lambda>c. c \<noteq> CHR ''.'') (rev b))
      in if CHR ''.'' \<notin> set b then []
         else if length b = length ext + 1 then []
         else if b = ''..'' then []
         else CHR ''.'' # ext)"

text \<open>\<open>getContentType\<close>.\<close>

definition contentTypes :: "(string \<times> string) list" where
  "contentTypes =
     [(''.html'', ''text/html''),
      (''.js'', ''application/javascript''),
      (''.css'', ''text/css''),
      (''.json'', ''application/json''),
      (''.png'', ''image/png''),
      (''.jpg'', ''image/jpeg''),
      (''.jpeg'', ''image/jpeg''),
      (''.gif'', ''image/gif''),
      (''.svg'', ''image/svg+xml''),
      (''.ico'', ''image/x-icon''),
      (''.woff'', ''font/woff''),
      (''.woff2'', ''font/woff2''),
      (''.ttf'', ''font/ttf''),
      (''.eot'', ''application/vnd.ms-fontobject'')]"

definition getContentType :: "string \<Rightarrow> string" where
  "getContentType ext =
     (case map_of contentTypes ext of
        None \<Rightarrow> ''application/octet-stream''
      | Some t \<Rightarrow> (if t = [] then ''application/octet-stream'' else t))"

text \<open>
  The file tree: what is found at an absolute path.  \<open>existsSync\<close> holds for every
  entry; \<open>readFile\<close> returns the bytes of a file and throws on anything else.
\<close>

datatype fs_entry = File string | Directory | Unreadable

type_synonym file_tree = "string \<Rightarrow> fs_entry option"

record response =
  status :: nat
  contentType :: "string option"
  body :: string

text \<open>
  The route handler installed by \<open>setupStaticRouting\<close>, from \<open>url.pathname\<close> on.  The
  URL parser has already removed the dot segments of the path; it keeps empty segments,
  so a path may begin with several slashes.
\<close>

definition route_handler :: "string \<Rightarrow> file_tree \<Rightarrow> string \<Rightarrow> string \<Rightarrow> response" where
  "route_handler cwd fs distPath pathname =
     (let filePath = (if startsWith pathname ''/'' then drop 1 pathname else pathname);
          filePath = (if extname filePath = [] then join_paths [filePath, ''index.html'']
                      else filePath);
          fullPath = resolve cwd [distPath, filePath]
      in if fs fullPath \<noteq> None \<and> startsWith fullPath (resolve cwd [distPath]) then
           (case fs fullPath of
              Some (File content) \<Rightarrow>
                \<lparr> status = 200, contentType = Some (getContentType (extname fullPath)),
                  body = content \<rparr>
            | _ \<Rightarrow> \<lparr> status = 500, contentType = None, body = ''Internal server error'' \<rparr>)
         else \<lparr> status = 404, contentType = None, body = ''File not found'' \<rparr>)"

text \<open>The absolute path that the handler reads for a request path.\<close>

definition served_path :: "string \<Rightarrow> string \<Rightarrow> string \<Rightarrow> string" where
  "served_path cwd distPath pathname =
     (let filePath = (if startsWith pathname ''/'' then drop 1 pathname else pathname);
          filePath = (if extname filePath = [] then join_paths [filePath, ''index.html'']
                      else filePath)
      in resolve cwd [distPath, filePath])"

text \<open>A path that is the directory \<open>root\<close> or lies below it.\<close>

definition under_root :: "string \<Rightarrow> string \<Rightarrow> bool" where
  "under_root root p =
     (p = root \<or> startsWith p (if root \<noteq> [] \<and> last root = SLASH then root else root @ ''/''))"

section \<open>The registry in the page\<close>

text \<open>
  The object \<open>window.__STORYBOOK_PREVIEW__\<close> and its story store, as far as the lookup
  of \<open>extractAllStoriesFromStorybook\<close> inspects them.  An object is the list of its own
  properties in enumeration order.  A property of the store is absent or \<open>undefined\<close>,
  another falsy value, a function, a map from keys to store items, or another truthy
  value without own enumerable properties.  A store function is called as
  \<open>cacheAllCSFFiles\<close>: it throws, or it resolves after assigning the listed properties
  of the store.
\<close>

datatype store_value =
    SUndefined
  | SFalsy
  | SFunction "error + (string \<times> store_value) list"
  | SItems "(string \<times> item option) list"
  | STruthy

type_synonym story_store = "(string \<times> store_value) list"

text \<open>
  The order in which an object enumerates its own string keys: the array indices (the
  decimal numerals without leading zero below \<open>2^32 - 1\<close>) in ascending order, then
  the other keys in the order of their creation.
\<close>

definition is_digit :: "char \<Rightarrow> bool" where
  "is_digit c = (48 \<le> (of_char c :: nat) \<and> (of_char c :: nat) \<le> 57)"

definition decimal_value :: "string \<Rightarrow> int" where
  "decimal_value k = foldl (\<lambda>n c. 10 * n + (of_char c - 48)) 0 k"

definition array_index :: "string \<Rightarrow> int option" where
  "array_index k =
     (case k of
        [] \<Rightarrow> None
      | c # cs \<Rightarrow>
          (if list_all is_digit k \<and> (c \<noteq> CHR ''0'' \<or> cs = [])
              \<and> decimal_value k < 4294967295
           then Some (decimal_value k) else None))"

fun insert_index :: "int \<Rightarrow> string \<Rightarrow> 'v \<Rightarrow> (string \<times> 'v) list \<Rightarrow> (string \<times> 'v) list" where
  "insert_index i k v [] = [(k, v)]"
| "insert_index i k v ((k', v') # kvs) =
     (case array_index k' of
        None \<Rightarrow> (k, v) # (k', v') # kvs
      | Some j \<Rightarrow>
          (if j < i then (k', v') # insert_index i k v kvs else (k, v) # (k', v') # kvs))"

fun replace_value :: "string \<Rightarrow> 'v \<Rightarrow> (string \<times> 'v) list \<Rightarrow> (string \<times> 'v) list" where
  "replace_value k v [] = []"
| "replace_value k v ((k', v') # kvs) =
     (if k = k' then (k, v) # kvs else (k', v') # replace_value k v kvs)"

text \<open>
  The assignment \<open>obj[k] = v\<close>: an existing property keeps its place, a new one takes
  the place the enumeration order gives it.
\<close>

definition assign :: "string \<Rightarrow> 'v \<Rightarrow> (string \<times> 'v) list \<Rightarrow> (string \<times> 'v) list" where
  "assign k v obj =
     (if map_of obj k \<noteq> None then replace_value k v obj
      else (case array_index k of
              None \<Rightarrow> obj @ [(k, v)]
            | Some i \<Rightarrow> insert_index i k v obj))"

definition assign_all :: "(string \<times> 'v) list \<Rightarrow> (string \<times> 'v) list \<Rightarrow> (string \<times> 'v) list" where
  "assign_all updates obj = foldl (\<lambda>acc kv. assign (fst kv) (snd kv) acc) obj updates"

text \<open>
  An entry of the record that \<open>preview.extract()\<close> resolves to, with the fields the
  grouping reads; the id of an entry is a string, every other field may be missing.
  \<open>es_fileName\<close> is \<open>parameters?.fileName\<close> and \<open>es_component_description\<close> is
  \<open>parameters?.docs?.description?.component\<close>.
\<close>

record extracted_story =
  es_componentId :: "string option"
  es_id :: string
  es_title :: "string option"
  es_kind :: "string option"
  es_name :: "string option"
  es_story :: "string option"
  es_fileName :: "string option"
  es_component_description :: "string option"
  es_parameters :: "story_parameters option"

text \<open>\<open>a || b\<close> on optional strings: \<open>a\<close> when it is a non-empty string, \<open>b\<close> otherwise.\<close>

definition or_else :: "string option \<Rightarrow> string option \<Rightarrow> string option" where
  "or_else a b = (case a of None \<Rightarrow> b | Some s \<Rightarrow> (if s = [] then b else Some s))"

text \<open>\<open>s.split(sep)[0]\<close> for a non-empty separator: the text before its first occurrence.\<close>

fun before_first :: "string \<Rightarrow> string \<Rightarrow> string" where
  "before_first [] sep = []"
| "before_first (c # cs) sep =
     (if startsWith (c # cs) sep then [] else c # before_first cs sep)"

text \<open>\<open>story.componentId || story.id?.split('--')[0] || 'unknown'\<close>.\<close>

definition component_id_of :: "extracted_story \<Rightarrow> string" where
  "component_id_of st =
     (case or_else (or_else (es_componentId st) (Some (before_first (es_id st) ''--'')))
             (Some ''unknown'') of
        None \<Rightarrow> ''unknown''
      | Some c \<Rightarrow> c)"

text \<open>The item created for a component when its first story is seen.\<close>

definition new_group :: "string \<Rightarrow> extracted_story \<Rightarrow> item" where
  "new_group componentId st =
     \<lparr> meta =
         \<lparr> meta_id = componentId,
           meta_title = (case or_else (or_else (es_title st) (es_kind st)) (Some ''Unknown'') of
                           None \<Rightarrow> ''Unknown''
                         | Some t \<Rightarrow> t),
           fileName = (case or_else (es_fileName st) (Some []) of None \<Rightarrow> [] | Some f \<Rightarrow> f),
           component_description = es_component_description st,
           meta_component = None,
           subcomponents = None \<rparr>,
       stories = Some [] \<rparr>"

text \<open>The assignment \<open>item.stories[story.id] = {...}\<close>.\<close>

definition add_story :: "extracted_story \<Rightarrow> item \<Rightarrow> item" where
  "add_story st it =
     it\<lparr>stories := Some
          (assign (es_id st)
             \<lparr> story_id = es_id st,
               story_name = or_else (es_name st) (es_story st),
               parameters = (case es_parameters st of
                               None \<Rightarrow> \<lparr> docsOnly = None, fullSource = None,
                                          story_description = None, originalSource = None \<rparr>
                             | Some ps \<Rightarrow> ps) \<rparr>
             (case stories it of None \<Rightarrow> [] | Some entries \<Rightarrow> entries))\<rparr>"

text \<open>
  One round of the loop over the extracted stories; \<open>groups\<close> is the map
  \<open>groupedByComponent\<close> in insertion order.
\<close>

fun group_story :: "extracted_story \<Rightarrow> (string \<times> item) list \<Rightarrow> (string \<times> item) list" where
  "group_story st [] = [(component_id_of st, add_story st (new_group (component_id_of st) st))]"
| "group_story st ((k, it) # groups) =
     (if k = component_id_of st then (k, add_story st it) # groups
      else (k, it) # group_story st groups)"

definition group_by_component :: "(string \<times> extracted_story) list \<Rightarrow> item option list" where
  "group_by_component extracted =
     map (\<lambda>g. Some (snd g)) (foldl (\<lambda>groups st. group_story st groups) [] (map snd extracted))"

text \<open>
  A property of the preview object.  A function is called as \<open>preview.extract\<close>: it
  throws, or it resolves to the record of the extracted stories.
\<close>

datatype preview_value =
    PUndefined
  | PFalsy
  | PFunction "error + (string \<times> extracted_story) list"
  | PStore story_store
  | PTruthy

type_synonym preview = "(string \<times> preview_value) list"

text \<open>Property reads \<open>preview.k\<close> and \<open>storyStore.k\<close>.\<close>

definition preview_prop :: "preview \<Rightarrow> string \<Rightarrow> preview_value" where
  "preview_prop p k = (case map_of p k of None \<Rightarrow> PUndefined | Some v \<Rightarrow> v)"

definition store_prop :: "story_store \<Rightarrow> string \<Rightarrow> store_value" where
  "store_prop s k = (case map_of s k of None \<Rightarrow> SUndefined | Some v \<Rightarrow> v)"

text \<open>
  A truthy property of the preview object seen as a story store; a truthy value that is
  not a store object has no own properties.
\<close>

fun as_store :: "preview_value \<Rightarrow> story_store option" where
  "as_store PUndefined = None"
| "as_store PFalsy = None"
| "as_store (PStore s) = Some s"
| "as_store v = Some []"

fun store_truthy :: "store_value \<Rightarrow> bool" where
  "store_truthy SUndefined = False"
| "store_truthy SFalsy = False"
| "store_truthy v = True"

text \<open>\<open>Object.values(v)\<close> for a truthy property of the store.\<close>

fun store_values :: "store_value \<Rightarrow> item option list" where
  "store_values (SItems entries) = map snd entries"
| "store_values v = []"

text \<open>\<open>getStoryStore\<close>.\<close>

definition getStoryStore :: "preview \<Rightarrow> error + story_store" where
  "getStoryStore p =
     (case as_store (preview_prop p ''storyStore'') of
        Some s \<Rightarrow> Inr s
      | None \<Rightarrow>
          (case as_store (preview_prop p ''storyStoreValue'') of
             Some s \<Rightarrow> Inr s
           | None \<Rightarrow> Inl (Error ''Unable to find Storybook story store'')))"

text \<open>The message of the error thrown when no property of the store holds cached files.\<close>

definition unsupported_message :: "preview \<Rightarrow> story_store \<Rightarrow> string" where
  "unsupported_message p s =
     ''Unable to find cached CSF files in Storybook store. Available preview properties: ''
     @ join '', '' (map fst p)
     @ ''. Available storyStore properties: ''
     @ join '', '' (map fst s)"

text \<open>The reads of the store after \<open>cacheAllCSFFiles\<close>, in the order of the source.\<close>

definition read_store :: "preview \<Rightarrow> story_store \<Rightarrow> error + item option list" where
  "read_store p s =
     (if store_truthy (store_prop s ''cachedCSFFiles'')
        then Inr (store_values (store_prop s ''cachedCSFFiles''))
      else if store_truthy (store_prop s ''cache'')
        then Inr (store_values (store_prop s ''cache''))
      else if store_truthy (store_prop s ''stories'')
        then Inr (store_values (store_prop s ''stories''))
      else Inl (Error (unsupported_message p s)))"

text \<open>
  The function evaluated in the page by \<open>extractAllStoriesFromStorybook\<close>; the argument
  is \<open>window.__STORYBOOK_PREVIEW__\<close>, \<open>None\<close> when it is not set.
\<close>

definition evaluate_in_page :: "preview option \<Rightarrow> error + item option list" where
  "evaluate_in_page w =
     (case w of
        None \<Rightarrow> Inl (Error ''Unable to find Storybook preview'')
      | Some p \<Rightarrow>
          (case preview_prop p ''extract'' of
             PFunction (Inl e) \<Rightarrow> Inl e
           | PFunction (Inr extracted) \<Rightarrow> Inr (group_by_component extracted)
           | _ \<Rightarrow>
               (case getStoryStore p of
                  Inl e \<Rightarrow> Inl e
                | Inr s \<Rightarrow>
                    (case store_prop s ''cacheAllCSFFiles'' of
                       SFunction (Inl e) \<Rightarrow> Inl e
                     | SFunction (Inr updates) \<Rightarrow> read_store p (assign_all updates s)
                     | _ \<Rightarrow> read_store p s))))"

section \<open>Extraction with the browser\<close>

text \<open>
  The launched browser with its context, as the outcomes of the Playwright calls the
  code awaits: an outcome is an exception or a value.  Calls on a page are indexed by
  the URL the page was opened for.  \<open>storybook_preview\<close> is the outcome of
  \<open>waitForFunction\<close> on the entry page: a timeout, or the preview object that appeared.
\<close>

record browser =
  newPage :: "error + unit"
  route :: "error + unit"
  goto :: "string \<Rightarrow> error + unit"
  waitForSelector :: "string \<Rightarrow> error + unit"
  innerHTML :: "string \<Rightarrow> error + string"
  closePage :: "string \<Rightarrow> error + unit"
  storybook_preview :: "error + preview"

text \<open>The console output of the extraction run.\<close>

datatype log_entry =
    Extracting string
  | FailedToExtract string error
  | SkippingInvalidItem "item option"
  | Processing nat
  | Extracted nat

text \<open>
  The awaited calls in the \<open>try\<close> block of \<open>extractMDXStoryContentWithBrowser\<close>, up to
  \<open>page.close()\<close>: the first exception ends them.
\<close>

definition page_markup :: "browser \<Rightarrow> string \<Rightarrow> log_entry list \<times> (error + string)" where
  "page_markup b url =
     (case newPage b of
        Inl e \<Rightarrow> ([], Inl e)
      | Inr _ \<Rightarrow>
     (case route b of
        Inl e \<Rightarrow> ([], Inl e)
      | Inr _ \<Rightarrow>
     (case goto b url of
        Inl e \<Rightarrow> ([Extracting url], Inl e)
      | Inr _ \<Rightarrow>
     (case waitForSelector b url of
        Inl e \<Rightarrow> ([Extracting url], Inl e)
      | Inr _ \<Rightarrow>
     (case innerHTML b url of
        Inl e \<Rightarrow> ([Extracting url], Inl e)
      | Inr html \<Rightarrow>
     (case closePage b url of
        Inl e \<Rightarrow> ([Extracting url], Inl e)
      | Inr _ \<Rightarrow> ([Extracting url], Inr html)))))))"

text \<open>
  \<open>extractMDXStoryContentWithBrowser\<close>.  \<open>convert\<close> is \<open>convertHtmlToMarkdown\<close>, the
  Turndown conversion.  Its promise is returned from inside the \<open>try\<close> block without
  \<open>await\<close>, so a rejection of it is not handled by the \<open>catch\<close> clause.
\<close>

definition extractMDXStoryContentWithBrowser ::
  "(string \<Rightarrow> error + string) \<Rightarrow> browser \<Rightarrow> string \<Rightarrow> log_entry list \<times> (error + string)" where
  "extractMDXStoryContentWithBrowser convert b url =
     (case page_markup b url of
        (logs, Inl e) \<Rightarrow> (logs @ [FailedToExtract url e], Inr [])
      | (logs, Inr html) \<Rightarrow> (logs, convert html))"

definition docs_url :: "string \<Rightarrow> string" where
  "docs_url ident = ''http://localhost/iframe.html?id='' @ replace ident ''--page'' ''--docs''"

text \<open>The loop over the stories of an item in \<open>extractStorybookData\<close>.\<close>

fun enrich_stories ::
  "(string \<Rightarrow> error + string) \<Rightarrow> browser \<Rightarrow> (string \<times> story) list
   \<Rightarrow> log_entry list \<times> (error + (string \<times> story) list)" where
  "enrich_stories convert b [] = ([], Inr [])"
| "enrich_stories convert b ((k, s) # rest) =
     (if docsOnly (parameters s) = Some True then
        (case extractMDXStoryContentWithBrowser convert b (docs_url (story_id s)) of
           (logs, Inl e) \<Rightarrow> (logs, Inl e)
         | (logs, Inr src) \<Rightarrow>
             (case enrich_stories convert b rest of
                (logs', Inl e) \<Rightarrow> (logs @ logs', Inl e)
              | (logs', Inr rest') \<Rightarrow>
                  (logs @ logs',
                   Inr ((k, s\<lparr>parameters := (parameters s)\<lparr>fullSource := Some src\<rparr>\<rparr>) # rest'))))
      else
        (case enrich_stories convert b rest of
           (logs', Inl e) \<Rightarrow> (logs', Inl e)
         | (logs', Inr rest') \<Rightarrow> (logs', Inr ((k, s) # rest'))))"

text \<open>The body of the loop over \<open>storeItems\<close>.\<close>

definition process_item ::
  "(string \<Rightarrow> error + string) \<Rightarrow> browser \<Rightarrow> item option
   \<Rightarrow> log_entry list \<times> (error + item option)" where
  "process_item convert b entry =
     (case entry of
        None \<Rightarrow> ([SkippingInvalidItem None], Inr None)
      | Some it \<Rightarrow>
          (case stories it of
             None \<Rightarrow> ([SkippingInvalidItem (Some it)], Inr (Some it))
           | Some entries \<Rightarrow>
               (if entries \<noteq> [] then
                  (case enrich_stories convert b entries of
                     (logs, Inl e) \<Rightarrow> (logs, Inl e)
                   | (logs, Inr entries') \<Rightarrow> (logs, Inr (Some (it\<lparr>stories := Some entries'\<rparr>))))
                else if endsWith (fileName (meta it)) ''.mdx'' then
                  (case extractMDXStoryContentWithBrowser convert b (docs_url (meta_id (meta it))) of
                     (logs, Inl e) \<Rightarrow> (logs, Inl e)
                   | (logs, Inr src) \<Rightarrow>
                       (logs,
                        Inr (Some (it\<lparr>stories := Some
                          [(meta_id (meta it),
                            \<lparr> story_id = meta_id (meta it), story_name = Some (meta_title (meta it)),
                              parameters = \<lparr> docsOnly = Some True, fullSource = Some src,
                                             story_description = None,
                                             originalSource = None \<rparr> \<rparr>)]\<rparr>))))
                else ([], Inr (Some it)))))"

fun process_items ::
  "(string \<Rightarrow> error + string) \<Rightarrow> browser \<Rightarrow> item option list
   \<Rightarrow> log_entry list \<times> (error + item option list)" where
  "process_items convert b [] = ([], Inr [])"
| "process_items convert b (entry # rest) =
     (case process_item convert b entry of
        (logs, Inl e) \<Rightarrow> (logs, Inl e)
      | (logs, Inr entry') \<Rightarrow>
          (case process_items convert b rest of
             (logs', Inl e) \<Rightarrow> (logs @ logs', Inl e)
           | (logs', Inr rest') \<Rightarrow> (logs @ logs', Inr (entry' # rest'))))"

text \<open>\<open>extractAllStoriesFromStorybook\<close>: every call is awaited and no exception is caught.\<close>

definition extractAllStoriesFromStorybook :: "browser \<Rightarrow> error + item option list" where
  "extractAllStoriesFromStorybook b =
     (case newPage b of
        Inl e \<Rightarrow> Inl e
      | Inr _ \<Rightarrow>
     (case route b of
        Inl e \<Rightarrow> Inl e
      | Inr _ \<Rightarrow>
     (case goto b ''http://localhost/iframe.html'' of
        Inl e \<Rightarrow> Inl e
      | Inr _ \<Rightarrow>
     (case storybook_preview b of
        Inl e \<Rightarrow> Inl e
      | Inr p \<Rightarrow>
     (case evaluate_in_page (Some p) of
        Inl e \<Rightarrow> Inl e
      | Inr items \<Rightarrow>
     (case closePage b ''http://localhost/iframe.html'' of
        Inl e \<Rightarrow> Inl e
      | Inr _ \<Rightarrow> Inr items))))))"

text \<open>
  \<open>extractStorybookData\<close>, once the browser is launched.  It returns the array
  \<open>storeItems\<close> that came out of the page, with the changes the loop made to its items.
\<close>

definition extractStorybookData ::
  "(string \<Rightarrow> error + string) \<Rightarrow> browser \<Rightarrow> log_entry list \<times> (error + item option list)" where
  "extractStorybookData convert b =
     (case extractAllStoriesFromStorybook b of
        Inl e \<Rightarrow> ([], Inl e)
      | Inr storeItems \<Rightarrow>
          (case process_items convert b storeItems of
             (logs, Inl e) \<Rightarrow> (Processing (length storeItems) # logs, Inl e)
           | (logs, Inr items) \<Rightarrow>
               (Processing (length storeItems) # logs @ [Extracted (length storeItems)],
                Inr items)))"

section \<open>The code block rule of the content renderer\<close>

text \<open>
  The rule \<open>codeBlock\<close> that \<open>convertHtmlToMarkdown\<close> adds to Turndown.  A node of the
  parsed markup is an element with its tag name, its \<open>class\<close> attribute (empty when
  absent) and its children, or a text node.
\<close>

datatype dom_node =
    Element string string "dom_node list"
  | TextNode string

fun className :: "dom_node \<Rightarrow> string" where
  "className (Element tag cls children) = cls"
| "className (TextNode t) = []"

fun is_element :: "dom_node \<Rightarrow> bool" where
  "is_element (Element tag cls children) = True"
| "is_element (TextNode t) = False"

text \<open>The descendants of a node in document order.\<close>

fun descendants :: "dom_node \<Rightarrow> dom_node list" where
  "descendants (Element tag cls children) = concat (map (\<lambda>c. c # descendants c) children)"
| "descendants (TextNode t) = []"

text \<open>\<open>node.querySelector('[class*="language-"]')\<close>: the first descendant element that matches.\<close>

definition matches_language :: "dom_node \<Rightarrow> bool" where
  "matches_language d = (is_element d \<and> includes_str (className d) ''language-'')"

definition querySelector_language :: "dom_node \<Rightarrow> dom_node option" where
  "querySelector_language node = find_first matches_language (descendants node)"

text \<open>The language computed at the start of \<open>replacement\<close>.\<close>

definition language_of :: "dom_node \<Rightarrow> string" where
  "language_of node =
     (case querySelector_language node of
        None \<Rightarrow> []
      | Some languageElement \<Rightarrow>
          (case find_first (\<lambda>cls. startsWith cls ''language-'')
                  (split (CHR '' '') (className languageElement)) of
             None \<Rightarrow> []
           | Some languageClass \<Rightarrow> replace languageClass ''language-'' []))"

definition codeBlock_filter :: "dom_node \<Rightarrow> bool" where
  "codeBlock_filter node = (case node of Element tag cls children \<Rightarrow> tag = ''PRE'' | _ \<Rightarrow> False)"

text \<open>\<open>replacement(content, node)\<close>; \<open>content\<close> is the Markdown of the children of the node.\<close>

definition codeBlock_replacement :: "string \<Rightarrow> dom_node \<Rightarrow> string" where
  "codeBlock_replacement content node =
     (let normalizedContent = trim content
      in if startsWith normalizedContent ''```'' then normalizedContent
         else ''```'' @ language_of node @ [LF] @ normalizedContent @ [LF] @ ''```'')"

text \<open>An element that carries a class token \<open>language-<name>\<close>, and the first such name.\<close>

definition language_tokens :: "dom_node \<Rightarrow> string list" where
  "language_tokens d =
     filter (\<lambda>cls. startsWith cls ''language-'') (split (CHR '' '') (className d))"

definition carries_language :: "dom_node \<Rightarrow> bool" where
  "carries_language d = (is_element d \<and> language_tokens d \<noteq> [])"

section \<open>The summary and the sitemap\<close>

record ref =
  ref_title :: string
  ref_url :: string

record args =
  distPath :: string
  summaryTitle :: string
  summaryDescription :: string
  summaryBaseUrl :: string
  refs :: "ref list"

text \<open>\<open>url.replace(re, '')\<close> where \<open>re\<close> matches one slash at the end of the string.\<close>

definition strip_trailing_slash :: "string \<Rightarrow> string" where
  "strip_trailing_slash url = (if url \<noteq> [] \<and> last url = SLASH then butlast url else url)"

text \<open>\<open>description.split('\n')[0]\<close>.\<close>

definition first_line :: "string \<Rightarrow> string" where
  "first_line s = takeWhile (\<lambda>c. c \<noteq> LF) s"

text \<open>The line pushed for one item by \<open>generateSummaryContent\<close>.\<close>

definition summary_item_line :: "args \<Rightarrow> item \<Rightarrow> string" where
  "summary_item_line a it =
     ''- ['' @ meta_title (meta it) @ '']('' @ summaryBaseUrl a @ ''/llms/''
     @ meta_id (meta it) @ ''.html)''
     @ (case component_description (meta it) of
          None \<Rightarrow> []
        | Some d \<Rightarrow> (if d = [] then [] else '': '' @ first_line d))"

definition summary_ref_line :: "ref \<Rightarrow> string" where
  "summary_ref_line r =
     ''- ['' @ ref_title r @ '']('' @ strip_trailing_slash (ref_url r) @ ''/llms.txt)''"

definition summary_note :: string where
  "summary_note = ''> **Note:** This is a summary overview using the LLMs.txt format (https://llmstxt.org/). Each section links to its full documentation file in plain text (.txt) format. Click any link below to view the detailed documentation for that section.''"

definition generateSummaryContent :: "args \<Rightarrow> item list \<Rightarrow> string list" where
  "generateSummaryContent a data =
     [''# '' @ summaryTitle a, [], summary_note, [], summaryDescription a, []]
     @ map (summary_item_line a) data
     @ (if refs a \<noteq> [] then [[], ''## Optional'', []] @ map summary_ref_line (refs a) @ [[]]
        else [])"

text \<open>
  What a run can observe besides its arguments: the clock, read by \<open>new Date()\<close>, here
  as the date \<open>YYYY-MM-DD\<close> it yields.
\<close>

record ambient =
  current_date :: string

text \<open>The content that \<open>writeSummaryFile\<close> writes to \<open>llms.txt\<close> in a run.\<close>

definition summary_file_content :: "ambient \<Rightarrow> args \<Rightarrow> item list \<Rightarrow> string" where
  "summary_file_content env a data = join [LF] (generateSummaryContent a data)"

text \<open>\<open>generateSitemapContent\<close>, which reads the clock.\<close>

definition sitemap_url :: "string \<Rightarrow> string \<Rightarrow> string \<Rightarrow> string list" where
  "sitemap_url loc date priority =
     [''  <url>'',
      ''    <loc>'' @ loc @ ''</loc>'',
      ''    <lastmod>'' @ date @ ''</lastmod>'',
      ''    <changefreq>weekly</changefreq>'',
      ''    <priority>'' @ priority @ ''</priority>'',
      ''  </url>'']"

definition sitemap_item :: "string \<Rightarrow> args \<Rightarrow> item \<Rightarrow> string list" where
  "sitemap_item date a it =
     [''  <!-- Component/Page documentation -->'']
     @ sitemap_url (summaryBaseUrl a @ ''/llms/'' @ meta_id (meta it) @ ''.txt'') date ''0.8''
     @ sitemap_url (summaryBaseUrl a @ ''/llms/'' @ meta_id (meta it) @ ''.html'') date ''0.7''
     @ [[]]"

definition generateSitemapContent :: "ambient \<Rightarrow> args \<Rightarrow> item list \<Rightarrow> string" where
  "generateSitemapContent env a data =
     join [LF]
       ([''<?xml version='' @ [DQUOTE] @ ''1.0'' @ [DQUOTE] @ '' encoding='' @ [DQUOTE]
           @ ''UTF-8'' @ [DQUOTE] @ ''?>'',
         ''<urlset xmlns='' @ [DQUOTE] @ ''http://www.sitemaps.org/schemas/sitemap/0.9''
           @ [DQUOTE] @ ''>'',
         [],
         ''  <!-- Main summary page -->'']
        @ sitemap_url (summaryBaseUrl a @ ''/llms.txt'') (current_date env) ''1.0''
        @ [[], ''  <!-- HTML summary index -->'']
        @ sitemap_url (summaryBaseUrl a @ ''/llms/index.html'') (current_date env) ''0.9''
        @ [[]]
        @ concat (map (sitemap_item (current_date env) a) data)
        @ [''</urlset>''])"

section \<open>Example items\<close>

text \<open>A prose page with three variants, the second without extracted content.\<close>

definition two_page_stories :: "(string \<times> story) list" where
  "two_page_stories =
     [(''guide--intro'',
       \<lparr> story_id = ''guide--intro'', story_name = Some ''Intro'',
         parameters = \<lparr> docsOnly = Some True, fullSource = Some ''A'',
                        story_description = None, originalSource = None \<rparr> \<rparr>),
      (''guide--empty'',
       \<lparr> story_id = ''guide--empty'', story_name = Some ''Empty'',
         parameters = \<lparr> docsOnly = Some True, fullSource = None,
                        story_description = None, originalSource = None \<rparr> \<rparr>),
      (''guide--usage'',
       \<lparr> story_id = ''guide--usage'', story_name = Some ''Usage'',
         parameters = \<lparr> docsOnly = Some True, fullSource = Some ''B'',
                        story_description = None, originalSource = None \<rparr> \<rparr>)]"

definition two_page_item :: item where
  "two_page_item =
     \<lparr> meta = \<lparr> meta_id = ''guide'', meta_title = ''Guide'', fileName = ''guide.mdx'',
                component_description = None, meta_component = None, subcomponents = None \<rparr>,
       stories = Some two_page_stories \<rparr>"

text \<open>A component with one story, a description, no docgen data and no subcomponents.\<close>

definition plain_button_stories :: "(string \<times> story) list" where
  "plain_button_stories =
     [(''button--primary'',
       \<lparr> story_id = ''button--primary'', story_name = Some ''Primary'',
         parameters = \<lparr> docsOnly = None, fullSource = None,
                        story_description = None, originalSource = Some ''<Button />'' \<rparr> \<rparr>)]"

definition plain_button_item :: item where
  "plain_button_item =
     \<lparr> meta = \<lparr> meta_id = ''button'', meta_title = ''Button'', fileName = ''Button.stories.tsx'',
                component_description = Some ''A button'', meta_component = None,
                subcomponents = None \<rparr>,
       stories = Some plain_button_stories \<rparr>"

text \<open>The same component with a \<open>subcomponents\<close> mapping that has no entries.\<close>

definition empty_subcomponents_item :: item where
  "empty_subcomponents_item =
     \<lparr> meta = \<lparr> meta_id = ''button'', meta_title = ''Button'', fileName = ''Button.stories.tsx'',
                component_description = Some ''A button'', meta_component = None,
                subcomponents = Some [] \<rparr>,
       stories = Some plain_button_stories \<rparr>"

text \<open>A docgen entry for a prop \<open>size\<close> without a type.\<close>

definition untyped_entry :: "string \<times> docgen_prop" where
  "untyped_entry =
     (''size'',
      \<lparr> arg_description = None, arg_type = JUndefined, arg_defaultValue = NoDefault,
        arg_required = None \<rparr>)"

text \<open>The type descriptor of the prop \<open>variant\<close>: an enum of \<open>a\<close> and \<open>b\<close>.\<close>

definition variant_enum :: json where
  "variant_enum =
     JObj [(''name'', JStr ''enum''),
           (''value'', JArr [JObj [(''value'', JStr ''a'')], JObj [(''value'', JStr ''b'')]])]"

definition variant_prop :: StorybookComponentProp where
  "variant_prop =
     \<lparr> prop_name = ''variant'', prop_description = [], prop_type = variant_enum,
       prop_defaultValue = ''a'', prop_required = True \<rparr>"

text \<open>
  A build in \<open>/work/storybook-static\<close> beside a directory whose name begins with the
  same characters.
\<close>

definition sibling_tree :: file_tree where
  "sibling_tree =
     map_of [(''/work/storybook-static/iframe.html'', File ''<html></html>''),
             (''/work/storybook-static-private/secret.html'', File ''secret'')]"

text \<open>Preview objects of no known shape: one with an empty store, one without a store.\<close>

definition unknown_store_preview :: preview where
  "unknown_store_preview =
     [(''channel'', PTruthy),
      (''storyStoreValue'', PStore [(''projectAnnotations'', STruthy), (''hooks'', STruthy)])]"

definition storeless_preview :: preview where
  "storeless_preview = [(''channel'', PTruthy), (''renderToCanvas'', PTruthy)]"

text \<open>A registry entry without a stories collection, and a page whose cache holds it.\<close>

definition broken_item :: item where
  "broken_item =
     \<lparr> meta = \<lparr> meta_id = ''broken'', meta_title = ''Broken'', fileName = ''Broken.stories.tsx'',
                component_description = None, meta_component = None, subcomponents = None \<rparr>,
       stories = None \<rparr>"

definition broken_registry_browser :: browser where
  "broken_registry_browser =
     \<lparr> newPage = Inr (), route = Inr (), goto = (\<lambda>url. Inr ()),
       waitForSelector = (\<lambda>url. Inr ()), innerHTML = (\<lambda>url. Inr ''<p>text</p>''),
       closePage = (\<lambda>url. Inr ()),
       storybook_preview =
         Inr [(''storyStoreValue'',
               PStore [(''cachedCSFFiles'', SItems [(''./Broken.stories.tsx'', Some broken_item)])])] \<rparr>"

text \<open>Browsers in which the content marker of no page attaches in time; the registry of
  the second holds the prose page and the button.\<close>

definition timeout_browser :: browser where
  "timeout_browser =
     \<lparr> newPage = Inr (), route = Inr (), goto = (\<lambda>url. Inr ()),
       waitForSelector = (\<lambda>url. Inl (Error ''Timeout 2000ms exceeded'')),
       innerHTML = (\<lambda>url. Inr []), closePage = (\<lambda>url. Inr ()),
       storybook_preview = Inr [] \<rparr>"

definition timeout_registry_browser :: browser where
  "timeout_registry_browser =
     \<lparr> newPage = Inr (), route = Inr (), goto = (\<lambda>url. Inr ()),
       waitForSelector = (\<lambda>url. Inl (Error ''Timeout 2000ms exceeded'')),
       innerHTML = (\<lambda>url. Inr []), closePage = (\<lambda>url. Inr ()),
       storybook_preview =
         Inr [(''storyStore'',
               PStore [(''cachedCSFFiles'',
                        SItems [(''./guide.mdx'', Some two_page_item),
                                (''./Button.stories.tsx'', Some plain_button_item)])])] \<rparr>"

text \<open>
  The fragment \<open><pre><code class="language-tsx">const x = 1;</code></pre>\<close>, and a
  fragment whose \<open>code\<close> element follows a \<open>span\<close> of class \<open>nolanguage-hint\<close>.
\<close>

definition tsx_pre :: dom_node where
  "tsx_pre = Element ''PRE'' [] [Element ''CODE'' ''language-tsx'' [TextNode ''const x = 1;'']]"

definition hinted_pre :: dom_node where
  "hinted_pre =
     Element ''PRE'' []
       [Element ''SPAN'' ''nolanguage-hint'' [],
        Element ''CODE'' ''language-tsx'' [TextNode ''const x = 1;'']]"

text \<open>A preview object with an \<open>extract\<close> function: two stories of a button and a page.\<close>

definition extract_preview :: preview where
  "extract_preview =
     [(''extract'',
       PFunction (Inr
         [(''button--primary'',
           \<lparr> es_componentId = None, es_id = ''button--primary'', es_title = Some ''Button'',
             es_kind = None, es_name = Some ''Primary'', es_story = None,
             es_fileName = Some ''./Button.stories.tsx'', es_component_description = None,
             es_parameters = None \<rparr>),
          (''intro--docs'',
           \<lparr> es_componentId = Some ''intro'', es_id = ''intro--docs'', es_title = None,
             es_kind = Some ''Intro'', es_name = None, es_story = Some ''Docs'',
             es_fileName = None, es_component_description = None,
             es_parameters = Some \<lparr> docsOnly = Some True, fullSource = None,
                                     story_description = None, originalSource = None \<rparr> \<rparr>),
          (''button--large'',
           \<lparr> es_componentId = None, es_id = ''button--large'', es_title = Some ''Button'',
             es_kind = None, es_name = Some ''Large'', es_story = None,
             es_fileName = Some ''./Button.stories.tsx'', es_component_description = None,
             es_parameters = None \<rparr>)]))]"

section \<open>Properties of static asset resolution\<close>

text \<open>
  C1. The claim is that a request path resolving outside the site root is answered with
  404 and that nothing outside the root is read.  The handler tests
  \<open>fullPath.startsWith(resolve(distPath))\<close>, a test on characters: with the build in
  \<open>/work/storybook-static\<close>, the request path
  \<open>//work/storybook-static-private/secret.html\<close> resolves to a file of the sibling
  directory \<open>/work/storybook-static-private\<close>, which is not under the root, and the
  handler answers 200 with the bytes of that file.
\<close>

theorem sibling_directory_served:
  "route_handler ''/work'' sibling_tree ''storybook-static''
       ''//work/storybook-static-private/secret.html''
     = \<lparr> status = 200, contentType = Some ''text/html'', body = ''secret'' \<rparr>
   \<and> served_path ''/work'' ''storybook-static'' ''//work/storybook-static-private/secret.html''
       = ''/work/storybook-static-private/secret.html''
   \<and> resolve ''/work'' [''storybook-static''] = ''/work/storybook-static''
   \<and> \<not> under_root (resolve ''/work'' [''storybook-static''])
         (served_path ''/work'' ''storybook-static''
            ''//work/storybook-static-private/secret.html'')"
  by code_simp

section \<open>Properties of the extraction\<close>

text \<open>
  The stories that \<open>preview.extract()\<close> yields are grouped by component, in the order
  in which the components are first seen.
\<close>

lemma extract_groups_by_component:
  "(case evaluate_in_page (Some extract_preview) of
      Inl e \<Rightarrow> []
    | Inr items \<Rightarrow>
        map (map_option (\<lambda>it. (meta_id (meta it), map_option (map fst) (stories it)))) items)
   = [Some (''button'', Some [''button--primary'', ''button--large'']),
      Some (''intro'', Some [''intro--docs''])]"
  by (simp add: evaluate_in_page_def extract_preview_def preview_prop_def group_by_component_def
        component_id_of_def or_else_def new_group_def add_story_def assign_def array_index_def
        is_digit_def)

text \<open>
  C4. The claim is that a registry item without a stories collection is logged and kept
  out of the item collection handed to the document generators.  The loop of
  \<open>extractStorybookData\<close> logs the item and skips it, but the function returns the
  array it read from the page, with the item still in it; the per-item text generator
  then throws on that item.
\<close>

theorem invalid_item_kept:
  "stories broken_item = None
   \<and> extractStorybookData Inr broken_registry_browser
       = ([Processing 1, SkippingInvalidItem (Some broken_item), Extracted 1],
          Inr [Some broken_item])
   \<and> generateFullFileContentFromStory broken_item
       = Inl (TypeError ''Cannot convert undefined or null to object'')"
  by (simp add: broken_item_def broken_registry_browser_def extractStorybookData_def
        extractAllStoriesFromStorybook_def evaluate_in_page_def preview_prop_def
        getStoryStore_def store_prop_def read_store_def process_item_def
        generateFullFileContentFromStory_def)

text \<open>A preview object without \<open>extract\<close> function and without story store.\<close>

lemma storeless_registry_error:
  assumes "\<forall>outcome. preview_prop p ''extract'' \<noteq> PFunction outcome"
    and "as_store (preview_prop p ''storyStore'') = None"
    and "as_store (preview_prop p ''storyStoreValue'') = None"
  shows "evaluate_in_page (Some p) = Inl (Error ''Unable to find Storybook story store'')"
  using assms
  by (simp add: evaluate_in_page_def getStoryStore_def split: preview_value.splits sum.splits)

text \<open>
  C5, as the code has it. When the preview object has no \<open>extract\<close> function and its
  story store (\<open>storyStore\<close> or \<open>storyStoreValue\<close>) has no \<open>cacheAllCSFFiles\<close> function
  and no truthy \<open>cachedCSFFiles\<close>, \<open>cache\<close> or \<open>stories\<close> property, the lookup fails
  with an error whose message lists the property names of the preview object and those
  of the store.
\<close>

theorem unsupported_registry_diagnostic:
  assumes "\<forall>outcome. preview_prop p ''extract'' \<noteq> PFunction outcome"
    and "getStoryStore p = Inr s"
    and "\<forall>outcome. store_prop s ''cacheAllCSFFiles'' \<noteq> SFunction outcome"
    and "\<not> store_truthy (store_prop s ''cachedCSFFiles'')"
    and "\<not> store_truthy (store_prop s ''cache'')"
    and "\<not> store_truthy (store_prop s ''stories'')"
  shows "evaluate_in_page (Some p) =
           Inl (Error (''Unable to find cached CSF files in Storybook store. Available preview properties: ''
                       @ join '', '' (map fst p)
                       @ ''. Available storyStore properties: ''
                       @ join '', '' (map fst s)))"
proof -
  from assms(4-6) have "read_store p s = Inl (Error (unsupported_message p s))"
    by (simp add: read_store_def)
  with assms(1-3) show ?thesis
    by (simp add: evaluate_in_page_def unsupported_message_def
          split: preview_value.splits store_value.splits sum.splits)
qed

theorem unsupported_registry_diagnostic_witness:
  "preview_prop unknown_store_preview ''extract'' = PUndefined
   \<and> getStoryStore unknown_store_preview
       = Inr [(''projectAnnotations'', STruthy), (''hooks'', STruthy)]
   \<and> evaluate_in_page (Some unknown_store_preview) =
       Inl (Error ''Unable to find cached CSF files in Storybook store. Available preview properties: channel, storyStoreValue. Available storyStore properties: projectAnnotations, hooks'')"
  using unsupported_registry_diagnostic
    [of unknown_store_preview "[(''projectAnnotations'', STruthy), (''hooks'', STruthy)]"]
  by (simp add: unknown_store_preview_def preview_prop_def getStoryStore_def store_prop_def)

text \<open>
  C5, as the claim words it, fails for a preview object of no known shape that has no
  story store at all: the error is the fixed message of \<open>getStoryStore\<close>, which names
  none of the properties of the preview object.
\<close>

theorem storeless_registry_counterexample:
  "preview_prop storeless_preview ''extract'' = PUndefined
   \<and> getStoryStore storeless_preview = Inl (Error ''Unable to find Storybook story store'')
   \<and> evaluate_in_page (Some storeless_preview)
       = Inl (Error ''Unable to find Storybook story store'')
   \<and> map fst storeless_preview = [''channel'', ''renderToCanvas'']
   \<and> \<not> includes_str ''Unable to find Storybook story store'' ''channel''
   \<and> \<not> includes_str ''Unable to find Storybook story store'' ''renderToCanvas''"
  by (simp add: storeless_preview_def preview_prop_def getStoryStore_def evaluate_in_page_def)

lemma page_markup_failure:
  assumes "newPage b = Inl e \<or> route b = Inl e \<or> goto b url = Inl e
           \<or> waitForSelector b url = Inl e \<or> innerHTML b url = Inl e \<or> closePage b url = Inl e"
  shows "\<exists>logs e'. page_markup b url = (logs, Inl e')"
  using assms by (auto simp: page_markup_def split: sum.splits)

lemma extract_after_failure:
  "page_markup b url = (logs, Inl e) \<Longrightarrow>
   extractMDXStoryContentWithBrowser convert b url = (logs @ [FailedToExtract url e], Inr [])"
  by (simp add: extractMDXStoryContentWithBrowser_def)

lemma snd_pairD: "snd p = v \<Longrightarrow> \<exists>l. p = (l, v)"
  by (cases p) simp

lemma extract_result:
  "snd (extractMDXStoryContentWithBrowser convert b url) =
     (case snd (page_markup b url) of Inl e \<Rightarrow> Inr [] | Inr html \<Rightarrow> convert html)"
  by (simp add: extractMDXStoryContentWithBrowser_def split: prod.splits sum.splits)

lemma extract_total:
  assumes "\<forall>url html. snd (page_markup b url) = Inr html \<longrightarrow> (\<exists>md. convert html = Inr md)"
  shows "\<exists>src. snd (extractMDXStoryContentWithBrowser convert b url) = Inr src
              \<and> ((\<exists>e. snd (page_markup b url) = Inl e) \<longrightarrow> src = [])"
proof (cases "snd (page_markup b url)")
  case (Inl e)
  then show ?thesis by (simp add: extract_result)
next
  case (Inr html)
  with assms obtain md where "convert html = Inr md" by blast
  with Inr show ?thesis by (simp add: extract_result)
qed

text \<open>What the loop makes of one variant: the relation between a variant and its result.\<close>

lemma enrich_stories_total:
  assumes conv: "\<forall>url html. snd (page_markup b url) = Inr html \<longrightarrow> (\<exists>md. convert html = Inr md)"
  shows "\<exists>entries'. snd (enrich_stories convert b entries) = Inr entries'
           \<and> list_all2
                (\<lambda>x y. fst y = fst x
                   \<and> (if docsOnly (parameters (snd x)) = Some True
                       then (\<exists>src. snd y = (snd x)\<lparr>parameters := (parameters (snd x))\<lparr>fullSource := Some src\<rparr>\<rparr>
                                  \<and> ((\<exists>e. snd (page_markup b (docs_url (story_id (snd x)))) = Inl e)
                                       \<longrightarrow> src = []))
                       else snd y = snd x))
                entries entries'"
proof (induction entries)
  case Nil
  show ?case by simp
next
  case (Cons x entries)
  obtain k s where x: "x = (k, s)" by (cases x)
  from Cons obtain rest' where rest: "snd (enrich_stories convert b entries) = Inr rest'"
    and rel: "list_all2
                (\<lambda>x y. fst y = fst x
                   \<and> (if docsOnly (parameters (snd x)) = Some True
                       then (\<exists>src. snd y = (snd x)\<lparr>parameters := (parameters (snd x))\<lparr>fullSource := Some src\<rparr>\<rparr>
                                  \<and> ((\<exists>e. snd (page_markup b (docs_url (story_id (snd x)))) = Inl e)
                                       \<longrightarrow> src = []))
                       else snd y = snd x))
                entries rest'"
    by blast
  show ?case
  proof (cases "docsOnly (parameters s) = Some True")
    case True
    from extract_total [OF conv, of "docs_url (story_id s)"]
    obtain src where src: "snd (extractMDXStoryContentWithBrowser convert b (docs_url (story_id s))) = Inr src"
      and empty: "(\<exists>e. snd (page_markup b (docs_url (story_id s))) = Inl e) \<longrightarrow> src = []"
      by blast
    from snd_pairD [OF src] obtain l1 where l1:
      "extractMDXStoryContentWithBrowser convert b (docs_url (story_id s)) = (l1, Inr src)"
      by blast
    from snd_pairD [OF rest] obtain l2 where l2: "enrich_stories convert b entries = (l2, Inr rest')"
      by blast
    from True l1 l2
    have "snd (enrich_stories convert b (x # entries))
            = Inr ((k, s\<lparr>parameters := (parameters s)\<lparr>fullSource := Some src\<rparr>\<rparr>) # rest')"
      unfolding x by simp
    with True empty rel show ?thesis
      unfolding x by auto
  next
    case False
    from snd_pairD [OF rest] obtain l2 where l2: "enrich_stories convert b entries = (l2, Inr rest')"
      by blast
    from False l2
    have "snd (enrich_stories convert b (x # entries)) = Inr ((k, s) # rest')"
      unfolding x by simp
    with False rel show ?thesis
      unfolding x by auto
  qed
qed

lemma process_item_total:
  assumes conv: "\<forall>url html. snd (page_markup b url) = Inr html \<longrightarrow> (\<exists>md. convert html = Inr md)"
  shows "\<exists>entry'. snd (process_item convert b entry) = Inr entry'
                  \<and> map_option meta entry' = map_option meta entry"
proof (cases entry)
  case None
  then show ?thesis by (simp add: process_item_def)
next
  case (Some it)
  show ?thesis
  proof (cases "stories it")
    case None
    with Some show ?thesis by (simp add: process_item_def)
  next
    case (Some entries)
    note st = this
    show ?thesis
    proof (cases "entries = []")
      case False
      from enrich_stories_total [OF conv, of entries]
      obtain entries' where en: "snd (enrich_stories convert b entries) = Inr entries'"
        by blast
      from snd_pairD [OF en] obtain l where "enrich_stories convert b entries = (l, Inr entries')"
        by blast
      with False st \<open>entry = Some it\<close> show ?thesis
        by (simp add: process_item_def)
    next
      case True
      from extract_total [OF conv, of "docs_url (meta_id (meta it))"]
      obtain src where sr:
        "snd (extractMDXStoryContentWithBrowser convert b (docs_url (meta_id (meta it)))) = Inr src"
        by blast
      from snd_pairD [OF sr] obtain l where
        "extractMDXStoryContentWithBrowser convert b (docs_url (meta_id (meta it))) = (l, Inr src)"
        by blast
      with True st \<open>entry = Some it\<close> show ?thesis
        by (simp add: process_item_def)
    qed
  qed
qed

lemma process_items_total:
  assumes conv: "\<forall>url html. snd (page_markup b url) = Inr html \<longrightarrow> (\<exists>md. convert html = Inr md)"
  shows "\<exists>items'. snd (process_items convert b items) = Inr items'
                  \<and> map (map_option meta) items' = map (map_option meta) items"
proof (induction items)
  case Nil
  show ?case by simp
next
  case (Cons entry items)
  from process_item_total [OF conv, of entry]
  obtain entry' where e: "snd (process_item convert b entry) = Inr entry'"
    "map_option meta entry' = map_option meta entry"
    by blast
  from Cons obtain items' where i: "snd (process_items convert b items) = Inr items'"
    "map (map_option meta) items' = map (map_option meta) items"
    by blast
  from snd_pairD [OF e(1)] obtain l1 where l1: "process_item convert b entry = (l1, Inr entry')"
    by blast
  from snd_pairD [OF i(1)] obtain l2 where l2: "process_items convert b items = (l2, Inr items')"
    by blast
  from l1 l2 e(2) i(2) show ?case
    by simp
qed

lemma extractStorybookData_total:
  assumes conv: "\<forall>url html. snd (page_markup b url) = Inr html \<longrightarrow> (\<exists>md. convert html = Inr md)"
    and reg: "extractAllStoriesFromStorybook b = Inr items"
  shows "\<exists>items'. snd (extractStorybookData convert b) = Inr items'
                  \<and> map (map_option meta) items' = map (map_option meta) items"
proof -
  from process_items_total [OF conv, of items]
  obtain items' where i: "snd (process_items convert b items) = Inr items'"
    "map (map_option meta) items' = map (map_option meta) items"
    by blast
  from snd_pairD [OF i(1)] obtain l where "process_items convert b items = (l, Inr items')"
    by blast
  with reg i(2) show ?thesis
    by (simp add: extractStorybookData_def)
qed

text \<open>
  C6. When opening the page, installing the routing, the navigation, the wait for the
  content marker, the read of the markup or closing the page fails, the extractor logs
  the failure and returns the empty string; the error does not leave it.  In the loop
  over the variants of an item, the variant of the failed page gets the empty string as
  its \<open>fullSource\<close> and the loop goes on with the remaining variants.  So no failure
  of a page ends the batch: whenever the conversion to Markdown succeeds on the markup
  of the pages that did load, the loop over the variants returns every variant (a
  variant that is not \<open>docsOnly\<close> as it was, a \<open>docsOnly\<close> variant with a
  \<open>fullSource\<close>, which is empty when its page failed), the loop over the items
  returns every item, and the run returns the whole collection that came out of the
  page.
\<close>

theorem failed_extraction_returns_empty:
  "((newPage b = Inl e \<or> route b = Inl e \<or> goto b url = Inl e
      \<or> waitForSelector b url = Inl e \<or> innerHTML b url = Inl e \<or> closePage b url = Inl e)
     \<longrightarrow> (\<exists>logs e'. extractMDXStoryContentWithBrowser convert b url
                         = (logs @ [FailedToExtract url e'], Inr []))
         \<and> (\<forall>k s rest. docsOnly (parameters s) = Some True \<and> docs_url (story_id s) = url
              \<longrightarrow> snd (enrich_stories convert b ((k, s) # rest)) =
                   (case snd (enrich_stories convert b rest) of
                      Inl err \<Rightarrow> Inl err
                    | Inr rest' \<Rightarrow>
                        Inr ((k, s\<lparr>parameters := (parameters s)\<lparr>fullSource := Some []\<rparr>\<rparr>) # rest'))))
   \<and> ((\<forall>u html. snd (page_markup b u) = Inr html \<longrightarrow> (\<exists>md. convert html = Inr md))
     \<longrightarrow> (\<forall>entries. \<exists>entries'.
            snd (enrich_stories convert b entries) = Inr entries'
            \<and> list_all2
                (\<lambda>x y. fst y = fst x
                   \<and> (if docsOnly (parameters (snd x)) = Some True
                       then (\<exists>src. snd y = (snd x)\<lparr>parameters := (parameters (snd x))\<lparr>fullSource := Some src\<rparr>\<rparr>
                                  \<and> ((\<exists>e. snd (page_markup b (docs_url (story_id (snd x)))) = Inl e)
                                       \<longrightarrow> src = []))
                       else snd y = snd x))
                entries entries')
         \<and> (\<forall>items. \<exists>items'.
               snd (process_items convert b items) = Inr items'
               \<and> map (map_option meta) items' = map (map_option meta) items)
         \<and> (\<forall>items. extractAllStoriesFromStorybook b = Inr items
               \<longrightarrow> (\<exists>items'. snd (extractStorybookData convert b) = Inr items'
                             \<and> map (map_option meta) items' = map (map_option meta) items)))"
proof -
  have single:
    "(\<exists>logs e'. extractMDXStoryContentWithBrowser convert b url
                  = (logs @ [FailedToExtract url e'], Inr []))
     \<and> (\<forall>k s rest. docsOnly (parameters s) = Some True \<and> docs_url (story_id s) = url
          \<longrightarrow> snd (enrich_stories convert b ((k, s) # rest)) =
               (case snd (enrich_stories convert b rest) of
                  Inl err \<Rightarrow> Inl err
                | Inr rest' \<Rightarrow>
                    Inr ((k, s\<lparr>parameters := (parameters s)\<lparr>fullSource := Some []\<rparr>\<rparr>) # rest')))"
    if failure: "newPage b = Inl e \<or> route b = Inl e \<or> goto b url = Inl e
      \<or> waitForSelector b url = Inl e \<or> innerHTML b url = Inl e \<or> closePage b url = Inl e"
  proof -
    from page_markup_failure [OF failure] obtain logs e' where
      "page_markup b url = (logs, Inl e')"
      by blast
    then have r:
      "extractMDXStoryContentWithBrowser convert b url = (logs @ [FailedToExtract url e'], Inr [])"
      by (rule extract_after_failure)
    have "snd (enrich_stories convert b ((k, s) # rest)) =
            (case snd (enrich_stories convert b rest) of
               Inl err \<Rightarrow> Inl err
             | Inr rest' \<Rightarrow>
                 Inr ((k, s\<lparr>parameters := (parameters s)\<lparr>fullSource := Some []\<rparr>\<rparr>) # rest'))"
      if "docsOnly (parameters s) = Some True" "docs_url (story_id s) = url" for k s rest
      using that r by (simp split: prod.splits sum.splits)
    with r show ?thesis
      by blast
  qed
  have batch:
    "(\<forall>entries. \<exists>entries'.
        snd (enrich_stories convert b entries) = Inr entries'
        \<and> list_all2
            (\<lambda>x y. fst y = fst x
               \<and> (if docsOnly (parameters (snd x)) = Some True
                   then (\<exists>src. snd y = (snd x)\<lparr>parameters := (parameters (snd x))\<lparr>fullSource := Some src\<rparr>\<rparr>
                              \<and> ((\<exists>e. snd (page_markup b (docs_url (story_id (snd x)))) = Inl e)
                                   \<longrightarrow> src = []))
                   else snd y = snd x))
            entries entries')
     \<and> (\<forall>items. \<exists>items'.
           snd (process_items convert b items) = Inr items'
           \<and> map (map_option meta) items' = map (map_option meta) items)
     \<and> (\<forall>items. extractAllStoriesFromStorybook b = Inr items
           \<longrightarrow> (\<exists>items'. snd (extractStorybookData convert b) = Inr items'
                         \<and> map (map_option meta) items' = map (map_option meta) items))"
    if conv: "\<forall>u html. snd (page_markup b u) = Inr html \<longrightarrow> (\<exists>md. convert html = Inr md)"
  proof (intro conjI allI impI)
    fix entries
    show "\<exists>entries'.
        snd (enrich_stories convert b entries) = Inr entries'
        \<and> list_all2
            (\<lambda>x y. fst y = fst x
               \<and> (if docsOnly (parameters (snd x)) = Some True
                   then (\<exists>src. snd y = (snd x)\<lparr>parameters := (parameters (snd x))\<lparr>fullSource := Some src\<rparr>\<rparr>
                              \<and> ((\<exists>e. snd (page_markup b (docs_url (story_id (snd x)))) = Inl e)
                                   \<longrightarrow> src = []))
                   else snd y = snd x))
            entries entries'"
      by (rule enrich_stories_total [OF conv])
  next
    fix items
    show "\<exists>items'. snd (process_items convert b items) = Inr items'
                   \<and> map (map_option meta) items' = map (map_option meta) items"
      by (rule process_items_total [OF conv])
  next
    fix items
    assume "extractAllStoriesFromStorybook b = Inr items"
    then show "\<exists>items'. snd (extractStorybookData convert b) = Inr items'
                        \<and> map (map_option meta) items' = map (map_option meta) items"
      by (rule extractStorybookData_total [OF conv])
  qed
  show ?thesis
  proof (rule conjI)
    show "(newPage b = Inl e \<or> route b = Inl e \<or> goto b url = Inl e
      \<or> waitForSelector b url = Inl e \<or> innerHTML b url = Inl e \<or> closePage b url = Inl e)
     \<longrightarrow> (\<exists>logs e'. extractMDXStoryContentWithBrowser convert b url
                         = (logs @ [FailedToExtract url e'], Inr []))
         \<and> (\<forall>k s rest. docsOnly (parameters s) = Some True \<and> docs_url (story_id s) = url
              \<longrightarrow> snd (enrich_stories convert b ((k, s) # rest)) =
                   (case snd (enrich_stories convert b rest) of
                      Inl err \<Rightarrow> Inl err
                    | Inr rest' \<Rightarrow>
                        Inr ((k, s\<lparr>parameters := (parameters s)\<lparr>fullSource := Some []\<rparr>\<rparr>) # rest')))"
      using single by (rule impI)
  next
    show "(\<forall>u html. snd (page_markup b u) = Inr html \<longrightarrow> (\<exists>md. convert html = Inr md))
     \<longrightarrow> (\<forall>entries. \<exists>entries'.
            snd (enrich_stories convert b entries) = Inr entries'
            \<and> list_all2
                (\<lambda>x y. fst y = fst x
                   \<and> (if docsOnly (parameters (snd x)) = Some True
                       then (\<exists>src. snd y = (snd x)\<lparr>parameters := (parameters (snd x))\<lparr>fullSource := Some src\<rparr>\<rparr>
                                  \<and> ((\<exists>e. snd (page_markup b (docs_url (story_id (snd x)))) = Inl e)
                                       \<longrightarrow> src = []))
                       else snd y = snd x))
                entries entries')
         \<and> (\<forall>items. \<exists>items'.
               snd (process_items convert b items) = Inr items'
               \<and> map (map_option meta) items' = map (map_option meta) items)
         \<and> (\<forall>items. extractAllStoriesFromStorybook b = Inr items
               \<longrightarrow> (\<exists>items'. snd (extractStorybookData convert b) = Inr items'
                             \<and> map (map_option meta) items' = map (map_option meta) items))"
      using batch by (rule impI)
  qed
qed

theorem failed_extraction_returns_empty_witness:
  "waitForSelector timeout_browser ''http://localhost/iframe.html?id=guide--docs''
     = Inl (Error ''Timeout 2000ms exceeded'')
   \<and> extractMDXStoryContentWithBrowser Inr timeout_browser
        ''http://localhost/iframe.html?id=guide--docs''
       = ([Extracting ''http://localhost/iframe.html?id=guide--docs'',
           FailedToExtract ''http://localhost/iframe.html?id=guide--docs''
             (Error ''Timeout 2000ms exceeded'')],
          Inr [])
   \<and> extractAllStoriesFromStorybook timeout_registry_browser
       = Inr [Some two_page_item, Some plain_button_item]
   \<and> snd (enrich_stories Inr timeout_registry_browser two_page_stories)
       = Inr (map (\<lambda>x. (fst x, (snd x)\<lparr>parameters := (parameters (snd x))\<lparr>fullSource := Some []\<rparr>\<rparr>))
                two_page_stories)
   \<and> snd (extractStorybookData Inr timeout_registry_browser)
       = Inr [Some (two_page_item
                     \<lparr>stories := Some
                        (map (\<lambda>x. (fst x, (snd x)\<lparr>parameters := (parameters (snd x))\<lparr>fullSource := Some []\<rparr>\<rparr>))
                           two_page_stories)\<rparr>),
              Some plain_button_item]"
proof -
  note rule = failed_extraction_returns_empty
    [of timeout_browser "Error ''Timeout 2000ms exceeded''"
        "''http://localhost/iframe.html?id=guide--docs''" Inr]
  have failure: "waitForSelector timeout_browser ''http://localhost/iframe.html?id=guide--docs''
     = Inl (Error ''Timeout 2000ms exceeded'')"
    by (simp add: timeout_browser_def)
  from rule [THEN conjunct1] failure
  have "\<exists>logs e'. extractMDXStoryContentWithBrowser Inr timeout_browser
                     ''http://localhost/iframe.html?id=guide--docs''
                   = (logs @ [FailedToExtract ''http://localhost/iframe.html?id=guide--docs'' e'],
                      Inr [])"
    by blast
  then have one: "extractMDXStoryContentWithBrowser Inr timeout_browser
        ''http://localhost/iframe.html?id=guide--docs''
       = ([Extracting ''http://localhost/iframe.html?id=guide--docs'',
           FailedToExtract ''http://localhost/iframe.html?id=guide--docs''
             (Error ''Timeout 2000ms exceeded'')],
          Inr [])"
    by (simp add: timeout_browser_def extractMDXStoryContentWithBrowser_def page_markup_def)
  have registry: "extractAllStoriesFromStorybook timeout_registry_browser
       = Inr [Some two_page_item, Some plain_button_item]"
    by (simp add: timeout_registry_browser_def extractAllStoriesFromStorybook_def
          evaluate_in_page_def preview_prop_def getStoryStore_def store_prop_def read_store_def)
  have pages: "page_markup timeout_registry_browser u
                 = ([Extracting u], Inl (Error ''Timeout 2000ms exceeded''))" for u
    by (simp add: timeout_registry_browser_def page_markup_def)
  have fails: "extractMDXStoryContentWithBrowser Inr timeout_registry_browser u
                 = ([Extracting u, FailedToExtract u (Error ''Timeout 2000ms exceeded'')], Inr [])"
    for u
    by (simp add: extractMDXStoryContentWithBrowser_def pages)
  have loop: "snd (enrich_stories Inr timeout_registry_browser two_page_stories)
       = Inr (map (\<lambda>x. (fst x, (snd x)\<lparr>parameters := (parameters (snd x))\<lparr>fullSource := Some []\<rparr>\<rparr>))
                two_page_stories)"
    by (simp add: two_page_stories_def fails)
  have button: "process_item Inr timeout_registry_browser (Some plain_button_item)
                  = ([], Inr (Some plain_button_item))"
    by (simp add: process_item_def plain_button_item_def plain_button_stories_def)
  have guide: "snd (process_item Inr timeout_registry_browser (Some two_page_item))
                 = Inr (Some (two_page_item
                     \<lparr>stories := Some
                        (map (\<lambda>x. (fst x, (snd x)\<lparr>parameters := (parameters (snd x))\<lparr>fullSource := Some []\<rparr>\<rparr>))
                           two_page_stories)\<rparr>))"
    using loop
    by (simp add: process_item_def two_page_item_def two_page_stories_def
          split: prod.splits sum.splits)
  from snd_pairD [OF guide] obtain l where
    "process_item Inr timeout_registry_browser (Some two_page_item)
       = (l, Inr (Some (two_page_item
                     \<lparr>stories := Some
                        (map (\<lambda>x. (fst x, (snd x)\<lparr>parameters := (parameters (snd x))\<lparr>fullSource := Some []\<rparr>\<rparr>))
                           two_page_stories)\<rparr>)))"
    by blast
  with button registry
  have run: "snd (extractStorybookData Inr timeout_registry_browser)
       = Inr [Some (two_page_item
                     \<lparr>stories := Some
                        (map (\<lambda>x. (fst x, (snd x)\<lparr>parameters := (parameters (snd x))\<lparr>fullSource := Some []\<rparr>\<rparr>))
                           two_page_stories)\<rparr>),
              Some plain_button_item]"
    by (simp add: extractStorybookData_def)
  from failure one registry loop run show ?thesis
    by (intro conjI)
qed

section \<open>Properties of the code block rule and of the summary\<close>

lemma find_first_none: "\<forall>x \<in> set xs. \<not> P x \<Longrightarrow> find_first P xs = None"
  by (induction xs) auto

lemma find_first_split:
  "\<forall>x \<in> set pre. \<not> P x \<Longrightarrow> P d \<Longrightarrow> find_first P (pre @ d # post) = Some d"
  by (induction pre) auto

lemma find_first_filter:
  "find_first P xs = (case filter P xs of [] \<Rightarrow> None | x # _ \<Rightarrow> Some x)"
  by (induction xs) auto

lemma startsWith_append_drop: "startsWith s p \<Longrightarrow> p @ drop (length p) s = s"
  by (induction s p rule: startsWith.induct) auto

lemma replace_prefix: "startsWith s p \<Longrightarrow> replace s p r = r @ drop (length p) s"
  by (cases s; cases p) auto

lemma language_of_first_match:
  assumes "descendants node = pre @ d # post"
    and "\<forall>x \<in> set pre. \<not> matches_language x" and "matches_language d"
  shows "language_of node =
           (case language_tokens d of [] \<Rightarrow> [] | t # ts \<Rightarrow> drop (length ''language-'') t)"
proof -
  from assms have q: "querySelector_language node = Some d"
    by (simp add: querySelector_language_def find_first_split)
  show ?thesis
  proof (cases "language_tokens d")
    case Nil
    with q show ?thesis
      by (simp add: language_of_def language_tokens_def find_first_filter)
  next
    case (Cons t ts)
    then have "t \<in> set (language_tokens d)"
      by simp
    then have "startsWith t ''language-''"
      by (simp add: language_tokens_def)
    then have "replace t ''language-'' [] = drop (length ''language-'') t"
      by (simp only: replace_prefix append_Nil)
    with q Cons show ?thesis
      by (simp add: language_of_def language_tokens_def find_first_filter)
  qed
qed

lemma language_of_no_match:
  "\<forall>x \<in> set (descendants node). \<not> matches_language x \<Longrightarrow> language_of node = []"
  by (simp add: language_of_def querySelector_language_def find_first_none)

text \<open>
  C8, as the code has it. For a \<open>pre\<close> element the rule returns the trimmed content
  unchanged when it begins with a fence, and otherwise the trimmed content between two
  fences, the first followed by the language tag.  The tag is taken from the first
  descendant element, in document order, whose class attribute contains the text
  \<open>language-\<close>: it is the name in the first token of that attribute (split at spaces)
  that begins with \<open>language-\<close>, and it is empty when the attribute has no such token
  or when no descendant has such an attribute.
\<close>

theorem pre_code_block:
  "codeBlock_replacement content node =
     (if startsWith (trim content) ''```'' then trim content
      else ''```'' @ language_of node @ [LF] @ trim content @ [LF] @ ''```'')
   \<and> ((\<forall>x \<in> set (descendants node). \<not> matches_language x) \<longrightarrow> language_of node = [])
   \<and> (\<forall>pre d post.
         descendants node = pre @ d # post
         \<and> (\<forall>x \<in> set pre. \<not> matches_language x) \<and> matches_language d
         \<longrightarrow> (language_tokens d = [] \<longrightarrow> language_of node = [])
             \<and> (\<forall>t ts. language_tokens d = t # ts \<longrightarrow> ''language-'' @ language_of node = t))"
proof -
  have fence: "codeBlock_replacement content node =
     (if startsWith (trim content) ''```'' then trim content
      else ''```'' @ language_of node @ [LF] @ trim content @ [LF] @ ''```'')"
    by (simp add: codeBlock_replacement_def Let_def)
  have none: "(\<forall>x \<in> set (descendants node). \<not> matches_language x) \<longrightarrow> language_of node = []"
    by (simp add: language_of_no_match)
  have some: "(language_tokens d = [] \<longrightarrow> language_of node = [])
              \<and> (\<forall>t ts. language_tokens d = t # ts \<longrightarrow> ''language-'' @ language_of node = t)"
    if d: "descendants node = pre @ d # post" "\<forall>x \<in> set pre. \<not> matches_language x"
      "matches_language d" for pre d post
  proof -
    note l = language_of_first_match [OF d]
    have "''language-'' @ language_of node = t" if t: "language_tokens d = t # ts" for t ts
    proof -
      from t have "t \<in> set (language_tokens d)"
        by simp
      then have "startsWith t ''language-''"
        by (simp add: language_tokens_def)
      then have "''language-'' @ drop (length ''language-'') t = t"
        by (rule startsWith_append_drop)
      with l t show ?thesis
        by simp
    qed
    with l show ?thesis
      by auto
  qed
  from fence none some show ?thesis
    by blast
qed

theorem pre_code_block_witness:
  "descendants tsx_pre
     = [] @ Element ''CODE'' ''language-tsx'' [TextNode ''const x = 1;'']
          # [TextNode ''const x = 1;'']
   \<and> matches_language (Element ''CODE'' ''language-tsx'' [TextNode ''const x = 1;''])
   \<and> language_tokens (Element ''CODE'' ''language-tsx'' [TextNode ''const x = 1;''])
       = [''language-tsx'']
   \<and> language_of tsx_pre = ''tsx''
   \<and> codeBlock_replacement ''const x = 1;'' tsx_pre
       = ''```tsx'' @ [LF] @ ''const x = 1;'' @ [LF] @ ''```''"
proof -
  note rule = pre_code_block [of "''const x = 1;''" tsx_pre]
  have d: "descendants tsx_pre
     = [] @ Element ''CODE'' ''language-tsx'' [TextNode ''const x = 1;'']
          # [TextNode ''const x = 1;'']"
    by (simp add: tsx_pre_def)
  have m: "matches_language (Element ''CODE'' ''language-tsx'' [TextNode ''const x = 1;''])"
    by (simp add: matches_language_def)
  have t: "language_tokens (Element ''CODE'' ''language-tsx'' [TextNode ''const x = 1;''])
       = [''language-tsx'']"
    by (simp add: language_tokens_def)
  have first: "descendants tsx_pre
       = [] @ Element ''CODE'' ''language-tsx'' [TextNode ''const x = 1;'']
            # [TextNode ''const x = 1;'']
     \<and> (\<forall>x \<in> set []. \<not> matches_language x)
     \<and> matches_language (Element ''CODE'' ''language-tsx'' [TextNode ''const x = 1;''])"
    using d m by simp
  from rule [THEN conjunct2, THEN conjunct2, rule_format, OF first]
  have "\<forall>t ts. language_tokens (Element ''CODE'' ''language-tsx'' [TextNode ''const x = 1;''])
                  = t # ts \<longrightarrow> ''language-'' @ language_of tsx_pre = t"
    by (rule conjunct2)
  with t have "''language-'' @ language_of tsx_pre = ''language-tsx''"
    by simp
  then have l: "language_of tsx_pre = ''tsx''"
    by simp
  have "trim ''const x = 1;'' = ''const x = 1;''"
    by (simp add: trim_def is_space_def)
  with rule [THEN conjunct1] l
  have "codeBlock_replacement ''const x = 1;'' tsx_pre
       = ''```tsx'' @ [LF] @ ''const x = 1;'' @ [LF] @ ''```''"
    by simp
  with d m t l show ?thesis
    by (intro conjI)
qed

text \<open>
  C8, as the claim words it (the language of any descendant that carries a
  \<open>language-<name>\<close> token), fails when an earlier descendant has \<open>language-\<close> inside
  another class name: the \<open>code\<close> element carries \<open>language-tsx\<close>, but the tag is empty.
\<close>

theorem pre_code_block_language_counterexample:
  "descendants hinted_pre
     = [Element ''SPAN'' ''nolanguage-hint'' [],
        Element ''CODE'' ''language-tsx'' [TextNode ''const x = 1;''],
        TextNode ''const x = 1;'']
   \<and> carries_language (Element ''CODE'' ''language-tsx'' [TextNode ''const x = 1;''])
   \<and> language_tokens (Element ''CODE'' ''language-tsx'' [TextNode ''const x = 1;''])
       = [''language-tsx'']
   \<and> language_of hinted_pre = []
   \<and> codeBlock_replacement ''const x = 1;'' hinted_pre
       = ''```'' @ [LF] @ ''const x = 1;'' @ [LF] @ ''```''"
  by (simp add: hinted_pre_def carries_language_def language_tokens_def language_of_def
        querySelector_language_def matches_language_def codeBlock_replacement_def
        trim_def is_space_def)

text \<open>
  C9. The text written as the summary depends on the run configuration and the item
  collection only: two runs with the same arguments, whatever the clock shows in each,
  write the same characters.
\<close>

theorem summary_deterministic:
  "summary_file_content env a data = summary_file_content env' a data"
  by (simp add: summary_file_content_def)

text \<open>The sitemap, in contrast, changes with the date.\<close>

lemma sitemap_depends_on_date:
  "generateSitemapContent \<lparr> current_date = ''2026-01-01'' \<rparr> a []
     \<noteq> generateSitemapContent \<lparr> current_date = ''2026-01-02'' \<rparr> a []"
  by (simp add: generateSitemapContent_def sitemap_url_def)

section \<open>Properties of the per-item plain text\<close>

text \<open>
  C2, as the code has it. For an item all of whose story variants carry
  \<open>docsOnly = true\<close>, the text written for the item is the non-empty \<open>fullSource\<close>
  values of its variants, in variant order, joined by one line feed (the writer joins
  the returned array with \<open>'\n'\<close>); variants without \<open>fullSource\<close> or with an empty one
  are skipped.
\<close>

theorem prose_page_text:
  assumes "stories it = Some entries"
    and "\<forall>s \<in> set (map snd entries). docsOnly (parameters s) = Some True"
  shows "txt_file_content it =
           Inr (join [LF]
                  (filter (\<lambda>src. src \<noteq> [])
                     (map (\<lambda>s. case fullSource (parameters s) of None \<Rightarrow> [] | Some src \<Rightarrow> src)
                        (map snd entries))))"
proof -
  from assms(2) have "isMDXPage (map snd entries)"
    by (simp add: isMDXPage_def list_all_iff)
  with assms(1) show ?thesis
    by (simp add: txt_file_content_def generateFullFileContentFromStory_def fullSources_def)
qed

theorem prose_page_text_witness:
  "stories two_page_item = Some two_page_stories
   \<and> list_all (\<lambda>s. docsOnly (parameters s) = Some True) (map snd two_page_stories)
   \<and> txt_file_content two_page_item = Inr [CHR ''A'', LF, CHR ''B'']"
  using prose_page_text [of two_page_item two_page_stories]
  by (simp add: two_page_item_def two_page_stories_def)

text \<open>
  C2, as the claim words it (joined by a blank line, that is by two line feeds), fails:
  the prose page with the sources \<open>A\<close>, none, \<open>B\<close> is written as \<open>A\<close>, line feed,
  \<open>B\<close>.
\<close>

theorem prose_page_blank_line_counterexample:
  "stories two_page_item = Some two_page_stories
   \<and> list_all (\<lambda>s. docsOnly (parameters s) = Some True) (map snd two_page_stories)
   \<and> txt_file_content two_page_item = Inr [CHR ''A'', LF, CHR ''B'']
   \<and> txt_file_content two_page_item \<noteq> Inr (join [LF, LF] [''A'', ''B''])"
  by (simp add: two_page_item_def two_page_stories_def txt_file_content_def
        generateFullFileContentFromStory_def isMDXPage_def fullSources_def)

text \<open>
  C3, as the code has it. For an item with a variant that is not \<open>docsOnly\<close>, without a
  \<open>subcomponents\<close> field and with an empty props list, the generated lines are the
  title heading, the component description when there is one, and the Examples section
  with one block per story variant; there is no Props and no Subcomponents section.
  (An item whose \<open>subcomponents\<close> field is present is left aside: the code tests the
  field for truthiness where the Props and Examples sections test a length, see the
  counterexample below.)
\<close>

theorem no_props_no_subcomponents_text:
  assumes "stories it = Some entries"
    and "\<exists>s \<in> set (map snd entries). docsOnly (parameters s) \<noteq> Some True"
    and "subcomponents (meta it) = None"
    and "extractComponentProps (meta_component (meta it)) = []"
  shows "generateFullFileContentFromStory it =
           Inr ([''# '' @ meta_title (meta it), []]
                @ (case extractStoryDescription it of None \<Rightarrow> [] | Some d \<Rightarrow> [d, []])
                @ [''## Examples'', []]
                @ concat (map example_lines (map snd entries)))"
proof -
  from assms(2) have mdx: "\<not> isMDXPage (map snd entries)"
    by (auto simp: isMDXPage_def list_all_iff)
  from assms(2) have ne: "entries \<noteq> []"
    by auto
  from assms(1,3,4) mdx ne show ?thesis
    by (simp add: generateFullFileContentFromStory_def props_section_def
          subcomponents_section_def examples_section_def)
qed

theorem no_props_no_subcomponents_text_witness:
  "stories plain_button_item = Some plain_button_stories
   \<and> \<not> list_all (\<lambda>s. docsOnly (parameters s) = Some True) (map snd plain_button_stories)
   \<and> subcomponents (meta plain_button_item) = None
   \<and> extractComponentProps (meta_component (meta plain_button_item)) = []
   \<and> generateFullFileContentFromStory plain_button_item =
       Inr [''# Button'', [], ''A button'', [], ''## Examples'', [],
            [], ''### Primary'', [], ''```tsx'', ''<Button />'', ''```'']"
  using no_props_no_subcomponents_text [of plain_button_item plain_button_stories]
  by (simp add: plain_button_item_def plain_button_stories_def extractComponentProps_def
        extractStoryDescription_def example_lines_def example_source_def trim_def is_space_def
        template_text_def)

text \<open>
  C3, as the claim words it (exactly the title heading and the description), fails
  twice.  A component item without props and subcomponents still gets its Examples
  section.  And when the \<open>subcomponents\<close> mapping is present but has no entries, the
  heading of the Subcomponents section is written with nothing under it, because
  \<open>if (item.meta.subcomponents)\<close> holds for every object.
\<close>

theorem title_and_description_only_counterexample:
  "stories plain_button_item = Some plain_button_stories
   \<and> \<not> list_all (\<lambda>s. docsOnly (parameters s) = Some True) (map snd plain_button_stories)
   \<and> subcomponents (meta plain_button_item) = None
   \<and> extractComponentProps (meta_component (meta plain_button_item)) = []
   \<and> generateFullFileContentFromStory plain_button_item =
       Inr [''# Button'', [], ''A button'', [], ''## Examples'', [],
            [], ''### Primary'', [], ''```tsx'', ''<Button />'', ''```'']
   \<and> generateFullFileContentFromStory plain_button_item
        \<noteq> Inr [''# Button'', [], ''A button'', []]
   \<and> stories empty_subcomponents_item = Some plain_button_stories
   \<and> subcomponents (meta empty_subcomponents_item) = Some []
   \<and> extractComponentProps (meta_component (meta empty_subcomponents_item)) = []
   \<and> generateFullFileContentFromStory empty_subcomponents_item =
       Inr [''# Button'', [], ''A button'', [], ''## Subcomponents'', [], ''## Examples'', [],
            [], ''### Primary'', [], ''```tsx'', ''<Button />'', ''```'']"
  by (simp add: plain_button_item_def empty_subcomponents_item_def plain_button_stories_def
        extractComponentProps_def
        extractStoryDescription_def example_lines_def example_source_def trim_def is_space_def
        template_text_def
        generateFullFileContentFromStory_def isMDXPage_def props_section_def
        subcomponents_section_def examples_section_def)

text \<open>
  C10. An item whose stories collection is empty takes the prose-page branch (the
  \<open>docsOnly\<close> test over zero variants holds vacuously); the generator returns no
  lines at all, so no title heading, description, props table or examples, and the
  text file is empty.
\<close>

theorem empty_stories_empty_content:
  assumes "stories it = Some []"
  shows "isMDXPage (map snd ([] :: (string \<times> story) list))
         \<and> generateFullFileContentFromStory it = Inr []
         \<and> txt_file_content it = Inr []"
  using assms
  by (simp add: isMDXPage_def generateFullFileContentFromStory_def fullSources_def
        txt_file_content_def)

theorem empty_stories_empty_content_witness:
  "stories
     \<lparr> meta = \<lparr> meta_id = ''intro'', meta_title = ''Intro'', fileName = ''intro.stories.tsx'',
                component_description = Some ''About'', meta_component = None,
                subcomponents = None \<rparr>,
       stories = Some [] \<rparr> = Some []
   \<and> generateFullFileContentFromStory
     \<lparr> meta = \<lparr> meta_id = ''intro'', meta_title = ''Intro'', fileName = ''intro.stories.tsx'',
                component_description = Some ''About'', meta_component = None,
                subcomponents = None \<rparr>,
       stories = Some [] \<rparr> = Inr []"
  using empty_stories_empty_content
    [of "\<lparr> meta = \<lparr> meta_id = ''intro'', meta_title = ''Intro'', fileName = ''intro.stories.tsx'',
                component_description = Some ''About'', meta_component = None,
                subcomponents = None \<rparr>,
       stories = Some [] \<rparr>"]
  by simp

section \<open>Properties of prop type stringification\<close>

lemma value_of_entry_defined:
  "v \<noteq> JNull \<Longrightarrow> v \<noteq> JUndefined \<Longrightarrow>
   value_of_entry v = Inr (string_or_stringify (get_prop v ''value''))"
  by (cases v) simp_all

lemma map_result_value_of_entry:
  "JNull \<notin> set vs \<Longrightarrow> JUndefined \<notin> set vs \<Longrightarrow>
   map_result value_of_entry vs = Inr (map (\<lambda>v. string_or_stringify (get_prop v ''value'')) vs)"
  by (induction vs) (auto simp: value_of_entry_defined)

lemma join_values_defined:
  assumes "JNull \<notin> set vs" "JUndefined \<notin> set vs"
  shows "join_values vs = Inr (join '' '' (map entry_text vs))"
  using assms
  by (simp add: join_values_def map_result_value_of_entry entry_text_def [abs_def] comp_def)

lemma descriptor_name_truthy: "descriptor_name t = Some n \<Longrightarrow> truthy t \<and> (\<forall>s. t \<noteq> JStr s)"
  by (cases t) (simp_all add: descriptor_name_def)

lemma stringify_falsy: "\<not> truthy t \<Longrightarrow> stringifyPropType t = Inr []"
  by (simp add: stringifyPropType.simps)

lemma stringify_string: "stringifyPropType (JStr s) = Inr s"
  by (simp add: stringifyPropType.simps)

text \<open>The branches of a named descriptor, in the order of the source.\<close>

lemma stringify_named:
  assumes "descriptor_name t = Some n"
  shows "stringifyPropType t =
     (if n = ''enum'' \<and> isArray (get_prop t ''value'')
        then join_values (array_elements (get_prop t ''value''))
      else if n = ''union'' \<and> isArray (get_prop t ''value'')
        then join_values (array_elements (get_prop t ''value''))
      else if n = ''array'' \<and> truthy (get_prop t ''value'')
        then (case stringifyPropType (get_prop t ''value'') of
                Inl e \<Rightarrow> Inl e
              | Inr s \<Rightarrow> Inr (s @ ''[]''))
      else if n = ''signature''
              \<and> opt_prop (opt_index0 (get_prop t ''value'')) ''value'' = JStr ''function''
        then Inr ''function''
      else Inr n)"
proof -
  from assms obtain kvs where t: "t = JObj kvs"
    by (cases t) (simp_all add: descriptor_name_def)
  show ?thesis
    using assms unfolding t
    by (subst stringifyPropType.simps) simp
qed

lemma stringify_value_list:
  assumes "descriptor_name t = Some n" "n = ''enum'' \<or> n = ''union''"
    and "get_prop t ''value'' = JArr vs" "JNull \<notin> set vs" "JUndefined \<notin> set vs"
  shows "stringifyPropType t = Inr (join '' '' (map entry_text vs))"
  using assms by (auto simp: stringify_named join_values_defined)

lemma JSON_stringify_truthy: "truthy t \<Longrightarrow> \<exists>r. JSON_stringify t = Some r"
  by (cases t) simp_all

lemma stringify_other:
  assumes "truthy t" "\<forall>s. t \<noteq> JStr s" "descriptor_name t = None"
  shows "\<exists>r. JSON_stringify t = Some r \<and> stringifyPropType t = Inr r"
proof -
  from assms(1) obtain r where r: "JSON_stringify t = Some r"
    using JSON_stringify_truthy by blast
  from assms r have "stringifyPropType t = Inr r"
    by (subst stringifyPropType.simps) (cases t; simp)
  with r show ?thesis by blast
qed

lemma null_free_elements_set:
  "null_free_elements vs \<Longrightarrow> JNull \<notin> set vs \<and> JUndefined \<notin> set vs"
  by (induction vs) auto

lemma null_free_map_of: "null_free_properties kvs \<Longrightarrow> map_of kvs k = Some v \<Longrightarrow> null_free v"
  by (induction kvs) (auto split: if_splits)

lemma null_free_get_prop: "null_free t \<Longrightarrow> null_free (get_prop t k)"
  by (cases t) (auto split: option.splits dest: null_free_map_of)

lemma join_values_total: "null_free_elements vs \<Longrightarrow> \<exists>s. join_values vs = Inr s"
  by (simp add: join_values_defined null_free_elements_set)

lemma stringify_total: "null_free t \<Longrightarrow> \<exists>s. stringifyPropType t = Inr s"
proof (induction t rule: stringifyPropType.induct)
  case (1 t)
  show ?case
  proof (cases "descriptor_name t")
    case None
    then show ?thesis
      using stringify_other [of t] stringify_falsy [of t] stringify_string
      by (cases "truthy t"; cases t) auto
  next
    case (Some n)
    note tr = descriptor_name_truthy [OF Some]
    have nf: "null_free (get_prop t ''value'')"
      using "1.prems" by (rule null_free_get_prop)
    have arr: "isArray (get_prop t ''value'') \<Longrightarrow>
               \<exists>s. join_values (array_elements (get_prop t ''value'')) = Inr s"
      using nf by (cases "get_prop t ''value''") (auto intro: join_values_total)
    have rec: "n = ''array'' \<Longrightarrow> truthy (get_prop t ''value'') \<Longrightarrow>
               \<exists>s. stringifyPropType (get_prop t ''value'') = Inr s"
      using "1.IH" tr Some nf by (cases t) auto
    show ?thesis
      using arr rec by (auto simp: stringify_named [OF Some])
  qed
qed

text \<open>A \<open>null\<close> or \<open>undefined\<close> entry of an enum or union value list makes the call throw.\<close>

lemma map_result_null_entry:
  "JNull \<in> set vs \<or> JUndefined \<in> set vs \<Longrightarrow>
   \<exists>msg. map_result value_of_entry vs = Inl (TypeError msg)"
proof (induction vs)
  case Nil
  then show ?case by simp
next
  case (Cons v vs)
  show ?case
  proof (cases "v = JNull \<or> v = JUndefined")
    case True
    then show ?thesis by auto
  next
    case False
    then have "value_of_entry v = Inr (string_or_stringify (get_prop v ''value''))"
      by (simp add: value_of_entry_defined)
    moreover from False Cons.prems have "JNull \<in> set vs \<or> JUndefined \<in> set vs"
      by auto
    then obtain msg where "map_result value_of_entry vs = Inl (TypeError msg)"
      using Cons.IH by blast
    ultimately show ?thesis by simp
  qed
qed

lemma stringify_null_entry_throws:
  assumes "descriptor_name t = Some n" "n = ''enum'' \<or> n = ''union''"
    and "get_prop t ''value'' = JArr vs" "JNull \<in> set vs \<or> JUndefined \<in> set vs"
  shows "\<exists>msg. stringifyPropType t = Inl (TypeError msg)"
proof -
  from map_result_null_entry [OF assms(4)] obtain msg where
    "map_result value_of_entry vs = Inl (TypeError msg)"
    by blast
  with assms(1-3) show ?thesis
    by (auto simp: stringify_named join_values_def)
qed

lemma stringify_missing_docgen_type:
  assumes "arg_type (snd entry) = JUndefined \<or> arg_type (snd entry) = JNull"
  shows "prop_type (prop_of_entry entry) = JObj []"
    and "stringifyPropType (prop_type (prop_of_entry entry)) = Inr ''{}''"
proof -
  from assms show t: "prop_type (prop_of_entry entry) = JObj []"
    by (auto simp: prop_of_entry_def)
  show "stringifyPropType (prop_type (prop_of_entry entry)) = Inr ''{}''"
    unfolding t by (simp add: stringifyPropType.simps descriptor_name_def)
qed

text \<open>
  C7, as the code has it. Prop type stringification returns a string for every type
  none of whose arrays holds \<open>null\<close> or \<open>undefined\<close>, and follows these rules: a falsy
  argument (\<open>undefined\<close>, \<open>null\<close>, \<open>false\<close>, \<open>0\<close>, the empty string) renders as the
  empty string; a string passes through; a descriptor named \<open>enum\<close> or \<open>union\<close> whose
  \<open>value\<close> is an array of entries renders as the entries' \<open>value\<close> fields joined by
  single spaces (a field that is not a string in its JSON encoding, a missing field as
  nothing); a descriptor named \<open>array\<close> with a truthy \<open>value\<close> renders as the rendering
  of that element type followed by \<open>[]\<close>; a descriptor named \<open>signature\<close> whose first
  value entry has the value \<open>function\<close> renders as \<open>function\<close>; any other descriptor
  with a string name renders as its name; every other truthy value renders as its JSON
  encoding.  The props that the tables show come from \<open>extractComponentProps\<close>, which
  puts the empty object in the place of a missing or \<open>null\<close> docgen type: the type of
  such a prop is never falsy when it is stringified, and it renders as the JSON encoding
  \<open>{}\<close> of the empty object.
\<close>

theorem stringifyPropType_rules:
  "(null_free t \<longrightarrow> (\<exists>s. stringifyPropType t = Inr s))
   \<and> (\<not> truthy t \<longrightarrow> stringifyPropType t = Inr [])
   \<and> (\<forall>s. t = JStr s \<longrightarrow> stringifyPropType t = Inr s)
   \<and> (\<forall>n vs. descriptor_name t = Some n \<and> (n = ''enum'' \<or> n = ''union'')
              \<and> get_prop t ''value'' = JArr vs \<and> JNull \<notin> set vs \<and> JUndefined \<notin> set vs
        \<longrightarrow> stringifyPropType t = Inr (join '' '' (map entry_text vs)))
   \<and> (descriptor_name t = Some ''array'' \<and> truthy (get_prop t ''value'')
        \<longrightarrow> stringifyPropType t =
             (case stringifyPropType (get_prop t ''value'') of
                Inl e \<Rightarrow> Inl e
              | Inr s \<Rightarrow> Inr (s @ ''[]'')))
   \<and> (descriptor_name t = Some ''signature''
        \<and> opt_prop (opt_index0 (get_prop t ''value'')) ''value'' = JStr ''function''
        \<longrightarrow> stringifyPropType t = Inr ''function'')
   \<and> (\<forall>n. descriptor_name t = Some n
            \<and> \<not> ((n = ''enum'' \<or> n = ''union'') \<and> isArray (get_prop t ''value''))
            \<and> \<not> (n = ''array'' \<and> truthy (get_prop t ''value''))
            \<and> \<not> (n = ''signature''
                   \<and> opt_prop (opt_index0 (get_prop t ''value'')) ''value'' = JStr ''function'')
        \<longrightarrow> stringifyPropType t = Inr n)
   \<and> (truthy t \<and> (\<forall>s. t \<noteq> JStr s) \<and> descriptor_name t = None
        \<longrightarrow> (\<exists>r. JSON_stringify t = Some r \<and> stringifyPropType t = Inr r))
   \<and> (arg_type (snd entry) = JUndefined \<or> arg_type (snd entry) = JNull
        \<longrightarrow> prop_type (prop_of_entry entry) = JObj []
            \<and> stringifyPropType (prop_type (prop_of_entry entry)) = Inr ''{}''
            \<and> props_table_row (prop_of_entry entry) =
                  Inr (''| `'' @ fst entry @ ''` | `{}` | ''
                       @ (if prop_required (prop_of_entry entry) then ''Yes'' else ''No'')
                       @ '' | '' @ prop_defaultValue (prop_of_entry entry)
                       @ '' | '' @ replace_newlines (prop_description (prop_of_entry entry))
                       @ '' |''))"
proof -
  have total: "null_free t \<longrightarrow> (\<exists>s. stringifyPropType t = Inr s)"
    by (simp add: stringify_total)
  have falsy: "\<not> truthy t \<longrightarrow> stringifyPropType t = Inr []"
    by (simp add: stringify_falsy)
  have str: "\<forall>s. t = JStr s \<longrightarrow> stringifyPropType t = Inr s"
    by (simp add: stringify_string)
  have lists: "\<forall>n vs. descriptor_name t = Some n \<and> (n = ''enum'' \<or> n = ''union'')
              \<and> get_prop t ''value'' = JArr vs \<and> JNull \<notin> set vs \<and> JUndefined \<notin> set vs
        \<longrightarrow> stringifyPropType t = Inr (join '' '' (map entry_text vs))"
    using stringify_value_list by blast
  have arr: "descriptor_name t = Some ''array'' \<and> truthy (get_prop t ''value'')
        \<longrightarrow> stringifyPropType t =
             (case stringifyPropType (get_prop t ''value'') of
                Inl e \<Rightarrow> Inl e
              | Inr s \<Rightarrow> Inr (s @ ''[]''))"
    by (simp add: stringify_named)
  have sig: "descriptor_name t = Some ''signature''
        \<and> opt_prop (opt_index0 (get_prop t ''value'')) ''value'' = JStr ''function''
        \<longrightarrow> stringifyPropType t = Inr ''function''"
    by (simp add: stringify_named)
  have named: "\<forall>n. descriptor_name t = Some n
            \<and> \<not> ((n = ''enum'' \<or> n = ''union'') \<and> isArray (get_prop t ''value''))
            \<and> \<not> (n = ''array'' \<and> truthy (get_prop t ''value''))
            \<and> \<not> (n = ''signature''
                   \<and> opt_prop (opt_index0 (get_prop t ''value'')) ''value'' = JStr ''function'')
        \<longrightarrow> stringifyPropType t = Inr n"
    by (auto simp: stringify_named)
  have other: "truthy t \<and> (\<forall>s. t \<noteq> JStr s) \<and> descriptor_name t = None
        \<longrightarrow> (\<exists>r. JSON_stringify t = Some r \<and> stringifyPropType t = Inr r)"
    using stringify_other by blast
  have missing: "arg_type (snd entry) = JUndefined \<or> arg_type (snd entry) = JNull
        \<longrightarrow> prop_type (prop_of_entry entry) = JObj []
            \<and> stringifyPropType (prop_type (prop_of_entry entry)) = Inr ''{}''
            \<and> props_table_row (prop_of_entry entry) =
                  Inr (''| `'' @ fst entry @ ''` | `{}` | ''
                       @ (if prop_required (prop_of_entry entry) then ''Yes'' else ''No'')
                       @ '' | '' @ prop_defaultValue (prop_of_entry entry)
                       @ '' | '' @ replace_newlines (prop_description (prop_of_entry entry))
                       @ '' |'')"
  proof
    assume m: "arg_type (snd entry) = JUndefined \<or> arg_type (snd entry) = JNull"
    note r = stringify_missing_docgen_type [OF m]
    have n: "prop_name (prop_of_entry entry) = fst entry"
      by (simp add: prop_of_entry_def)
    from r(2) n have "props_table_row (prop_of_entry entry) =
                  Inr (''| `'' @ fst entry @ ''` | `{}` | ''
                       @ (if prop_required (prop_of_entry entry) then ''Yes'' else ''No'')
                       @ '' | '' @ prop_defaultValue (prop_of_entry entry)
                       @ '' | '' @ replace_newlines (prop_description (prop_of_entry entry))
                       @ '' |'')"
      by (simp add: props_table_row_def)
    with r show "prop_type (prop_of_entry entry) = JObj []
            \<and> stringifyPropType (prop_type (prop_of_entry entry)) = Inr ''{}''
            \<and> props_table_row (prop_of_entry entry) =
                  Inr (''| `'' @ fst entry @ ''` | `{}` | ''
                       @ (if prop_required (prop_of_entry entry) then ''Yes'' else ''No'')
                       @ '' | '' @ prop_defaultValue (prop_of_entry entry)
                       @ '' | '' @ replace_newlines (prop_description (prop_of_entry entry))
                       @ '' |'')"
      by (intro conjI)
  qed
  from total falsy str lists arr sig named other missing show ?thesis
    by (intro conjI)
qed

text \<open>
  The prop \<open>variant\<close> of the specification: its type renders as \<open>a b\<close>, and its table
  row shows \<open>Yes\<close> and the default \<open>a\<close>.
\<close>

theorem stringifyPropType_rules_witness:
  "null_free variant_enum
   \<and> descriptor_name variant_enum = Some ''enum''
   \<and> get_prop variant_enum ''value''
       = JArr [JObj [(''value'', JStr ''a'')], JObj [(''value'', JStr ''b'')]]
   \<and> stringifyPropType variant_enum = Inr ''a b''
   \<and> props_table_row variant_prop = Inr ''| `variant` | `a b` | Yes | a |  |''"
proof -
  have name: "descriptor_name variant_enum = Some ''enum''"
    by (simp add: variant_enum_def descriptor_name_def)
  have val: "get_prop variant_enum ''value''
       = JArr [JObj [(''value'', JStr ''a'')], JObj [(''value'', JStr ''b'')]]"
    by (simp add: variant_enum_def)
  have nf: "null_free variant_enum"
    by (simp add: variant_enum_def)
  from stringifyPropType_rules [of variant_enum untyped_entry] name val
  have r: "stringifyPropType variant_enum = Inr ''a b''"
    by (simp add: entry_text_def)
  from r have "props_table_row variant_prop = Inr ''| `variant` | `a b` | Yes | a |  |''"
    by (simp add: props_table_row_def variant_prop_def replace_newlines_def)
  with name val nf r show ?thesis
    by simp
qed

text \<open>
  C7, as the claim words it (total; a missing type renders as the empty string;
  everything that is neither missing, a string nor a named descriptor renders as its
  JSON encoding), fails: an \<open>enum\<close> whose value list holds \<open>null\<close> makes the function
  throw, \<open>false\<close> renders as the empty string and not as its JSON encoding \<open>false\<close>,
  and the prop of a docgen entry without a type shows \<open>{}\<close> in its table row.
\<close>

theorem stringifyPropType_total_counterexample:
  "stringifyPropType (JObj [(''name'', JStr ''enum''), (''value'', JArr [JNull])])
     = Inl (TypeError (''Cannot read properties of null (reading '' @ [CHR 0x27] @ ''value''
                        @ [CHR 0x27] @ '')''))
   \<and> stringifyPropType (JBool False) = Inr []
   \<and> JSON_stringify (JBool False) = Some ''false''
   \<and> arg_type (snd untyped_entry) = JUndefined
   \<and> extractComponentProps
         (Some \<lparr> docgenInfo = Some \<lparr> docgen_description = None,
                                      docgen_props = Some [untyped_entry] \<rparr> \<rparr>)
       = [prop_of_entry untyped_entry]
   \<and> stringifyPropType (prop_type (prop_of_entry untyped_entry)) = Inr ''{}''
   \<and> props_table_row (prop_of_entry untyped_entry) = Inr ''| `size` | `{}` | No |  |  |''"
  by (simp add: stringifyPropType.simps descriptor_name_def join_values_def cannot_read_def
        untyped_entry_def extractComponentProps_def prop_of_entry_def props_table_row_def
        replace_newlines_def)

end
